theory Spec2Isabelle
  imports Complex_Main
begin

section \<open>Values of the Python program\<close>

text \<open>
  The impact model (\<^verbatim>\<open>backend/impact_model.py\<close>) computes with Python floats and hands
  numpy's \<^verbatim>\<open>float64\<close> results on. A float is a finite real, an infinity or NaN. The
  result of an operation is the exact real result brought into the range of a double:
  it overflows to an infinity from \<open>2\<^sup>1\<^sup>0\<^sup>2\<^sup>4 - 2\<^sup>9\<^sup>7\<^sup>0\<close> on and underflows to zero up to
  \<open>2\<^sup>-\<^sup>1\<^sup>0\<^sup>7\<^sup>5\<close>. Between these bounds the exact result is kept: the rounding to 53
  bits is not modelled, \<^verbatim>\<open>math.pi\<close> is \<open>\<pi>\<close>, and the two zeros are one. Besides floats
  the arithmetic of the source can produce a Python \<^verbatim>\<open>complex\<close> (a negative float
  raised to the power \<^verbatim>\<open>1/3\<close>) and raise \<^verbatim>\<open>OverflowError\<close> (a float power that overflows)
  or \<^verbatim>\<open>ZeroDivisionError\<close> (a \<^verbatim>\<open>complex\<close> divided by zero).
\<close>

datatype pyfloat = Fin real | PosInf | NegInf | NaN

datatype pynum = PyFloat pyfloat | PyComplex complex

datatype pyval =
    PyStr string
  | PyBool bool
  | PyInt int
  | PyNum pynum
  | PyList "pyval list"
  | PyDict "(string \<times> pyval) list"

type_synonym pydict = "(string \<times> pyval) list"

datatype py_error = OverflowError | ZeroDivisionError | KeyError

text \<open>Subscription \<^verbatim>\<open>d[k]\<close> of a dictionary: a missing key raises.\<close>

definition getitem :: "pydict \<Rightarrow> string \<Rightarrow> py_error + pyval" where
  "getitem d k = (case map_of d k of None \<Rightarrow> Inl KeyError | Some v \<Rightarrow> Inr v)"

text \<open>Reading a report: a key of the dictionary, and a key of a nested dictionary.\<close>

definition field :: "string \<Rightarrow> pydict \<Rightarrow> pyval option" where
  "field k d = map_of d k"

definition subfield :: "string \<Rightarrow> string \<Rightarrow> pydict \<Rightarrow> pyval option" where
  "subfield k1 k2 d = (case map_of d k1 of Some (PyDict s) \<Rightarrow> map_of s k2 | _ \<Rightarrow> None)"

section \<open>Float arithmetic\<close>

definition DBL_OVERFLOW :: real where
  "DBL_OVERFLOW = 2 ^ 1024 - 2 ^ 970"

definition DBL_UNDERFLOW :: real where
  "DBL_UNDERFLOW = 1 / 2 ^ 1075"

text \<open>The float that an exact result becomes.\<close>

definition to_float :: "real \<Rightarrow> pyfloat" where
  "to_float x =
     (if DBL_OVERFLOW \<le> x then PosInf
      else if x \<le> - DBL_OVERFLOW then NegInf
      else if \<bar>x\<bar> \<le> DBL_UNDERFLOW then Fin 0
      else Fin x)"

text \<open>\<^verbatim>\<open>x * y\<close> on floats; it never raises.\<close>

fun fmul :: "pyfloat \<Rightarrow> pyfloat \<Rightarrow> pyfloat" where
  "fmul (Fin a) (Fin b) = to_float (a * b)"
| "fmul (Fin a) PosInf = (if 0 < a then PosInf else if a < 0 then NegInf else NaN)"
| "fmul (Fin a) NegInf = (if 0 < a then NegInf else if a < 0 then PosInf else NaN)"
| "fmul PosInf (Fin b) = (if 0 < b then PosInf else if b < 0 then NegInf else NaN)"
| "fmul NegInf (Fin b) = (if 0 < b then NegInf else if b < 0 then PosInf else NaN)"
| "fmul PosInf PosInf = PosInf"
| "fmul PosInf NegInf = NegInf"
| "fmul NegInf PosInf = NegInf"
| "fmul NegInf NegInf = PosInf"
| "fmul NaN y = NaN"
| "fmul x NaN = NaN"

text \<open>
  \<^verbatim>\<open>x / y\<close> on floats as numpy divides: a zero divisor gives an infinity or NaN with a
  warning. Python's own \<^verbatim>\<open>/\<close> differs only at a zero divisor, where it raises; the
  divisors of the three Python divisions of the source are the literals 2,
  \<^verbatim>\<open>JOULES_PER_MEGATON_TNT\<close> and 1000.
\<close>

fun fdiv :: "pyfloat \<Rightarrow> pyfloat \<Rightarrow> pyfloat" where
  "fdiv (Fin a) (Fin b) =
     (if b \<noteq> 0 then to_float (a / b)
      else if 0 < a then PosInf else if a < 0 then NegInf else NaN)"
| "fdiv (Fin a) PosInf = Fin 0"
| "fdiv (Fin a) NegInf = Fin 0"
| "fdiv PosInf (Fin b) = (if 0 \<le> b then PosInf else NegInf)"
| "fdiv NegInf (Fin b) = (if 0 \<le> b then NegInf else PosInf)"
| "fdiv PosInf PosInf = NaN"
| "fdiv PosInf NegInf = NaN"
| "fdiv NegInf PosInf = NaN"
| "fdiv NegInf NegInf = NaN"
| "fdiv NaN y = NaN"
| "fdiv x NaN = NaN"

text \<open>
  \<^verbatim>\<open>x ** n\<close> for a float \<open>x\<close> and a positive integer literal \<open>n\<close> (3 and 2 in the source):
  Python raises \<^verbatim>\<open>OverflowError\<close> when the power of a finite float overflows; an
  underflow gives zero.
\<close>

fun fpow_int :: "pyfloat \<Rightarrow> nat \<Rightarrow> py_error + pyfloat" where
  "fpow_int (Fin x) n =
     (if DBL_OVERFLOW \<le> \<bar>x ^ n\<bar> then Inl OverflowError else Inr (to_float (x ^ n)))"
| "fpow_int PosInf n = Inr PosInf"
| "fpow_int NegInf n = Inr (if odd n then NegInf else PosInf)"
| "fpow_int NaN n = Inr NaN"

text \<open>
  \<^verbatim>\<open>x ** (1/3)\<close> on a float: the real power for a finite \<open>x \<ge> 0\<close>; for a finite \<open>x < 0\<close>
  Python answers with the principal complex root, of modulus \<open>\<bar>x\<bar> ** (1/3)\<close> and
  argument \<open>\<pi> / 3\<close>; an infinity of either sign gives \<^verbatim>\<open>inf\<close>, and NaN gives NaN.
\<close>

fun pow_third :: "pyfloat \<Rightarrow> pynum" where
  "pow_third (Fin x) =
     (if 0 \<le> x then PyFloat (Fin (x powr (1/3)))
      else PyComplex (Complex ((- x) powr (1/3) * cos (pi / 3)) ((- x) powr (1/3) * sin (pi / 3))))"
| "pow_third PosInf = PyFloat PosInf"
| "pow_third NegInf = PyFloat PosInf"
| "pow_third NaN = PyFloat NaN"

text \<open>\<^verbatim>\<open>c * x\<close> for an integer literal \<open>c\<close> of the source (90, 3, 30).\<close>

fun mul_int :: "int \<Rightarrow> pynum \<Rightarrow> pynum" where
  "mul_int c (PyFloat x) = PyFloat (fmul (Fin (of_int c)) x)"
| "mul_int c (PyComplex z) = PyComplex (of_int c * z)"

text \<open>\<^verbatim>\<open>x / 1000\<close>.\<close>

fun div_1000 :: "pynum \<Rightarrow> pynum" where
  "div_1000 (PyFloat x) = PyFloat (fdiv x (Fin 1000))"
| "div_1000 (PyComplex z) = PyComplex (z / 1000)"

text \<open>
  \<^verbatim>\<open>np.radians\<close> multiplies by \<open>\<pi> / 180\<close>; the product of a finite double cannot overflow,
  it can underflow. \<^verbatim>\<open>np.sin\<close> of the finite result is finite.
\<close>

definition np_radians :: "real \<Rightarrow> real" where
  "np_radians deg = (if \<bar>deg * pi / 180\<bar> \<le> DBL_UNDERFLOW then 0 else deg * pi / 180)"

definition np_sin :: "real \<Rightarrow> real" where
  "np_sin x = sin x"

text \<open>
  \<^verbatim>\<open>x / s\<close> where \<open>s\<close> is the finite numpy \<^verbatim>\<open>float64\<close> that \<^verbatim>\<open>np.sin\<close> returned. A float
  numerator is divided by numpy; a complex numerator is divided by Python, which raises
  at \<open>s = 0\<close>.
\<close>

fun truediv_np :: "pynum \<Rightarrow> real \<Rightarrow> py_error + pynum" where
  "truediv_np (PyFloat x) s = Inr (PyFloat (fdiv x (Fin s)))"
| "truediv_np (PyComplex z) s =
     (if s = 0 then Inl ZeroDivisionError else Inr (PyComplex (z / of_real s)))"

text \<open>The comparisons \<^verbatim>\<open>x < y\<close> and \<^verbatim>\<open>x <= y\<close> of floats: false whenever NaN takes part.\<close>

fun flt :: "pyfloat \<Rightarrow> pyfloat \<Rightarrow> bool" where
  "flt (Fin a) (Fin b) = (a < b)"
| "flt (Fin a) PosInf = True"
| "flt NegInf (Fin b) = True"
| "flt NegInf PosInf = True"
| "flt x y = False"

fun fle :: "pyfloat \<Rightarrow> pyfloat \<Rightarrow> bool" where
  "fle (Fin a) (Fin b) = (a \<le> b)"
| "fle NaN y = False"
| "fle x NaN = False"
| "fle x PosInf = True"
| "fle NegInf y = True"
| "fle x y = False"

section \<open>The impact model\<close>

definition ASTEROID_DENSITY_KGM3 :: real where
  "ASTEROID_DENSITY_KGM3 = 3500"

definition JOULES_PER_MEGATON_TNT :: real where
  "JOULES_PER_MEGATON_TNT = 4.184 * 10 ^ 15"

definition get_severity_details :: "real \<Rightarrow> pydict" where
  "get_severity_details energy_mt =
     (if energy_mt < 0.1 then
        [(''band'', PyStr ''Local Event''),
         (''color'', PyStr ''green''),
         (''actions'', PyList [PyStr ''Monitor official news.'',
                               PyStr ''No immediate public action required.''])]
      else if energy_mt < 10 then
        [(''band'', PyStr ''City Level Event''),
         (''color'', PyStr ''yellow''),
         (''actions'', PyList [PyStr ''Shelter away from windows.'',
                               PyStr ''Expect shockwave.'',
                               PyStr ''Follow local authority instructions.''])]
      else if energy_mt < 1000 then
        [(''band'', PyStr ''Regional Threat''),
         (''color'', PyStr ''red''),
         (''actions'', PyList [PyStr ''Evacuate within precaution radius immediately.'',
                               PyStr ''Seek high ground if in coastal area.''])]
      else
        [(''band'', PyStr ''Global Event''),
         (''color'', PyStr ''black''),
         (''actions'', PyList [PyStr ''This is a globally significant event.'',
                               PyStr ''Follow national emergency broadcast instructions.''])])"

text \<open>
  The call \<^verbatim>\<open>get_severity_details(impact_energy_Mt)\<close> with a float that need not be
  finite. \<^verbatim>\<open>inf\<close> and NaN fail each \<^verbatim>\<open><\<close> of the chain and reach the last branch, as
  every energy from 1000 on does; \<^verbatim>\<open>-inf\<close> passes the first \<^verbatim>\<open><\<close>, as every energy below
  0.1 does.
\<close>

fun get_severity_details_float :: "pyfloat \<Rightarrow> pydict" where
  "get_severity_details_float (Fin energy_mt) = get_severity_details energy_mt"
| "get_severity_details_float PosInf = get_severity_details 1000"
| "get_severity_details_float NaN = get_severity_details 1000"
| "get_severity_details_float NegInf = get_severity_details 0"

text \<open>
  Step 7 of \<^verbatim>\<open>calculate_impact_effects\<close>, the assembly of the report. The three
  subscriptions of \<open>severity\<close> are evaluated in the order of the dictionary display.
  \<open>utcnow\<close> is the text that \<^verbatim>\<open>datetime.datetime.utcnow().isoformat()\<close> returns; \<open>lat\<close>
  and \<open>lon\<close> are the caller's values, passed through.
\<close>

definition assemble_output ::
  "string \<Rightarrow> real \<Rightarrow> pyval \<Rightarrow> pyval \<Rightarrow> bool \<Rightarrow> pyfloat \<Rightarrow> pyfloat \<Rightarrow> pynum \<Rightarrow> pynum \<Rightarrow> pynum
     \<Rightarrow> pydict \<Rightarrow> bool \<Rightarrow> pyval \<Rightarrow> bool \<Rightarrow> py_error + pydict" where
  "assemble_output utcnow impact_angle_deg lat lon impact_in_water kinetic_energy_J
       impact_energy_Mt crater_long_axis_m crater_short_axis_m precaution_radius_km
       severity is_airburst_risk shockwave_damage_radius_km tsunami_risk =
     (case getitem severity ''band'' of Inl e \<Rightarrow> Inl e | Inr band \<Rightarrow>
      case getitem severity ''color'' of Inl e \<Rightarrow> Inl e | Inr color \<Rightarrow>
      case getitem severity ''actions'' of Inl e \<Rightarrow> Inl e | Inr actions \<Rightarrow>
      Inr [(''impact_body'', PyStr ''Earth''),
           (''impact_coords'', PyDict [(''lat'', lat), (''lon'', lon)]),
           (''impact_in_water'', PyBool impact_in_water),
           (''impact_energy_J'', PyNum (PyFloat kinetic_energy_J)),
           (''impact_energy_Mt'', PyNum (PyFloat impact_energy_Mt)),
           (''crater_details'',
              PyDict [(''shape'', PyStr (if impact_angle_deg < 80 then ''oval'' else ''circular'')),
                      (''long_axis_m_est'', PyNum crater_long_axis_m),
                      (''short_axis_m_est'', PyNum crater_short_axis_m)]),
           (''precaution_radius_km_est'', PyNum precaution_radius_km),
           (''severity_band'', band),
           (''severity_color'', color),
           (''shockwave_effects'',
              PyDict [(''is_airburst_risk'', PyBool is_airburst_risk),
                      (''damage_radius_km_est'', shockwave_damage_radius_km),
                      (''description'',
                         PyStr (if is_airburst_risk
                                then ''Widespread window breakage expected. Risk of injury from flying glass.''
                                else ''Negligible atmospheric shockwave effects.''))]),
           (''tsunami_risk'', PyBool tsunami_risk),
           (''recommended_actions'', actions),
           (''confidence_pct'', PyInt 75),
           (''notes'', PyStr ''Prototype estimate based on simplified models. Not for official use.''),
           (''timestamp_utc'', PyStr (utcnow @ ''Z''))])"

text \<open>
  \<^verbatim>\<open>calculate_impact_effects\<close>, steps 1 to 6, in the order of the source. The reading of
  the clock is the first argument; the diameter, the speed and the angle are finite
  floats.
\<close>

definition calculate_impact_effects ::
  "string \<Rightarrow> real \<Rightarrow> real \<Rightarrow> real \<Rightarrow> pyval \<Rightarrow> pyval \<Rightarrow> string \<Rightarrow> bool \<Rightarrow> py_error + pydict" where
  "calculate_impact_effects utcnow diameter_m impact_speed_m_s impact_angle_deg lat lon
       impact_body impact_in_water =
     (if impact_body \<noteq> ''Earth'' then
        Inr [(''impact_body'', PyStr impact_body),
             (''notes'', PyStr ''No direct effect on Earth expected.'')]
      else
        let radius_m = fdiv (Fin diameter_m) (Fin 2)
        in case fpow_int radius_m 3 of
             Inl e \<Rightarrow> Inl e
           | Inr radius_cubed \<Rightarrow>
        let volume_m3 = fmul (Fin ((4/3) * pi)) radius_cubed;
            mass_kg = fmul (Fin ASTEROID_DENSITY_KGM3) volume_m3
        in case fpow_int (Fin impact_speed_m_s) 2 of
             Inl e \<Rightarrow> Inl e
           | Inr speed_squared \<Rightarrow>
        let kinetic_energy_J = fmul (fmul (Fin 0.5) mass_kg) speed_squared;
            impact_energy_Mt = fdiv kinetic_energy_J (Fin JOULES_PER_MEGATON_TNT);
            severity = get_severity_details_float impact_energy_Mt;
            base_crater_diameter_m = mul_int 90 (pow_third impact_energy_Mt);
            impact_angle_rad = np_radians impact_angle_deg
        in case truediv_np base_crater_diameter_m (np_sin impact_angle_rad) of
             Inl e \<Rightarrow> Inl e
           | Inr crater_long_axis_m \<Rightarrow>
        let crater_short_axis_m = base_crater_diameter_m;
            precaution_radius_km = div_1000 (mul_int 3 crater_long_axis_m);
            is_airburst_risk =
              (fle (Fin 0.1) impact_energy_Mt \<and> flt impact_energy_Mt (Fin 1000));
            shockwave_damage_radius_km =
              (if is_airburst_risk then PyNum (mul_int 30 (pow_third impact_energy_Mt))
               else PyInt 0);
            tsunami_risk = (impact_in_water \<and> flt (Fin 1) impact_energy_Mt)
        in assemble_output utcnow impact_angle_deg lat lon impact_in_water
             kinetic_energy_J impact_energy_Mt crater_long_axis_m crater_short_axis_m
             precaution_radius_km severity is_airburst_risk shockwave_damage_radius_km
             tsunami_risk)"

text \<open>
  The order of the four severity bands, from Local Event up to Global Event; any other
  value is not a band.
\<close>

definition band_index :: "pyval \<Rightarrow> nat option" where
  "band_index b =
     (if b = PyStr ''Local Event'' then Some 0
      else if b = PyStr ''City Level Event'' then Some 1
      else if b = PyStr ''Regional Threat'' then Some 2
      else if b = PyStr ''Global Event'' then Some 3
      else None)"

section \<open>Floats in the range of a double\<close>

lemma to_float_normal:
  assumes "1 / 10 ^ 300 \<le> x" "x \<le> 10 ^ 300"
  shows "to_float x = Fin x"
proof -
  have pos: "0 < x" using assms(1) by (rule less_le_trans [rotated]) simp
  have hi: "x < DBL_OVERFLOW"
    using assms(2) by (rule le_less_trans) (simp add: DBL_OVERFLOW_def)
  have lo: "DBL_UNDERFLOW < x"
    using assms(1) by (rule less_le_trans [rotated]) (simp add: DBL_UNDERFLOW_def)
  from pos hi lo show ?thesis
    by (simp add: to_float_def)
qed

lemma to_float_range:
  assumes "lo \<le> x" "x \<le> hi" "1 / 10 ^ 300 \<le> lo" "hi \<le> 10 ^ 300"
  shows "to_float x = Fin x"
  using assms by (intro to_float_normal) linarith+

lemma to_float_fin:
  assumes "0 < x" "DBL_UNDERFLOW < x" "x < DBL_OVERFLOW"
  shows "to_float x = Fin x"
proof -
  have a1: "\<not> DBL_OVERFLOW \<le> x" using assms by linarith
  have a2: "\<not> x \<le> - DBL_OVERFLOW" using assms by linarith
  have a3: "\<not> \<bar>x\<bar> \<le> DBL_UNDERFLOW" using assms by simp
  show ?thesis unfolding to_float_def by (simp only: a1 a2 a3 if_False)
qed

lemma to_float_overflow: "DBL_OVERFLOW \<le> x \<Longrightarrow> to_float x = PosInf"
  by (simp add: to_float_def)

lemma to_float_zero: "to_float 0 = Fin 0"
  by (simp add: to_float_def DBL_OVERFLOW_def DBL_UNDERFLOW_def)

lemma to_float_underflow:
  assumes "0 \<le> x" "x \<le> DBL_UNDERFLOW"
  shows "to_float x = Fin 0"
proof -
  have c: "DBL_UNDERFLOW < DBL_OVERFLOW" "0 < DBL_OVERFLOW"
    by (simp_all add: DBL_OVERFLOW_def DBL_UNDERFLOW_def)
  have a1: "\<not> DBL_OVERFLOW \<le> x" using assms c by linarith
  have a2: "\<not> x \<le> - DBL_OVERFLOW" using assms c by linarith
  have a3: "\<bar>x\<bar> \<le> DBL_UNDERFLOW" using assms by simp
  show ?thesis unfolding to_float_def by (simp only: a1 a2 a3 if_False if_True)
qed

lemma range_mult:
  fixes a b :: real
  assumes "l1 \<le> a" "a \<le> h1" "l2 \<le> b" "b \<le> h2" "0 < l1" "0 < l2"
  shows "l1 * l2 \<le> a * b" and "a * b \<le> h1 * h2"
proof -
  show "l1 * l2 \<le> a * b" using assms by (intro mult_mono) simp_all
  show "a * b \<le> h1 * h2" using assms by (intro mult_mono) simp_all
qed

lemma cube_root_powr:
  fixes y :: real
  assumes "0 < y"
  shows "(y ^ 3) powr (1/3) = y"
proof -
  have "(y ^ 3) powr (1/3) = (y powr 3) powr (1/3)" using assms by simp
  also have "\<dots> = y powr 1" by (simp add: powr_powr)
  finally show ?thesis using assms by simp
qed

lemma powr_third_range:
  fixes x :: real
  assumes "1 / 10 ^ 300 \<le> x" "x \<le> 10 ^ 300"
  shows "1 / 10 ^ 100 \<le> x powr (1/3)" and "x powr (1/3) \<le> 10 ^ 100"
proof -
  have b: "(10 ^ 300 :: real) = (10 ^ 100) ^ 3"
    by (simp only: flip: power_mult) simp
  have a: "(1 / 10 ^ 300 :: real) = (1 / 10 ^ 100) ^ 3"
    unfolding b by (simp only: power_divide power_one)
  have "(1 / 10 ^ 300 :: real) powr (1/3) \<le> x powr (1/3)"
    using assms(1) by (intro powr_mono2) simp_all
  then show "1 / 10 ^ 100 \<le> x powr (1/3)"
    unfolding a by (subst (asm) cube_root_powr) simp_all
  have pos: "0 \<le> x" using assms(1) by (rule order_trans [rotated]) simp
  have "x powr (1/3) \<le> (10 ^ 300 :: real) powr (1/3)"
    using assms(2) pos by (intro powr_mono2) simp_all
  then show "x powr (1/3) \<le> 10 ^ 100"
    unfolding b by (subst (asm) cube_root_powr) simp_all
qed

lemma fpow_int_range:
  fixes x :: real
  assumes "lo \<le> x ^ n" "x ^ n \<le> hi" "1 / 10 ^ 300 \<le> lo" "hi \<le> 10 ^ 300"
  shows "fpow_int (Fin x) n = Inr (Fin (x ^ n))"
proof -
  have n: "to_float (x ^ n) = Fin (x ^ n)" using assms by (rule to_float_range)
  have "0 < x ^ n"
    using assms(1,3) by (intro less_le_trans [OF _ assms(1)] less_le_trans [OF _ assms(3)]) simp
  moreover have "x ^ n < DBL_OVERFLOW"
    using assms(2,4) by (intro le_less_trans [OF assms(2)] le_less_trans [OF assms(4)])
      (simp add: DBL_OVERFLOW_def)
  ultimately show ?thesis by (simp add: n)
qed

lemma tiny_cube:
  fixes x :: real
  assumes "0 \<le> x" "x \<le> 1 / 10 ^ 109"
  shows "(x / 2) ^ 3 \<le> DBL_UNDERFLOW"
proof -
  have "(x / 2) ^ 3 \<le> (1 / 10 ^ 109) ^ 3"
    using assms by (intro power_mono) simp_all
  also have "\<dots> = 1 / 10 ^ 327"
    by (simp only: power_divide power_one flip: power_mult) simp
  also have "\<dots> \<le> 1 / 2 ^ 1075"
    by (rule divide_left_mono) simp_all
  finally show ?thesis by (simp only: DBL_UNDERFLOW_def)
qed

section \<open>The computation on requests far from overflow and underflow\<close>

lemma energy_ranges:
  fixes d v :: real
  assumes d1: "1 / 10 ^ 50 \<le> d" and d2: "d \<le> 10 ^ 50"
    and v1: "1 / 10 ^ 50 \<le> \<bar>v\<bar>" and v2: "\<bar>v\<bar> \<le> 10 ^ 50"
  shows "1 / 10 ^ 51 \<le> d / 2" and "d / 2 \<le> 10 ^ 50"
    and "1 / 10 ^ 153 \<le> (d / 2) ^ 3" and "(d / 2) ^ 3 \<le> 10 ^ 150"
    and "1 / 10 ^ 153 \<le> (4/3) * pi * (d / 2) ^ 3"
    and "(4/3) * pi * (d / 2) ^ 3 \<le> 10 ^ 151"
    and "1 / 10 ^ 153 \<le> ASTEROID_DENSITY_KGM3 * ((4/3) * pi * (d / 2) ^ 3)"
    and "ASTEROID_DENSITY_KGM3 * ((4/3) * pi * (d / 2) ^ 3) \<le> 10 ^ 155"
    and "1 / 10 ^ 154 \<le> 0.5 * (ASTEROID_DENSITY_KGM3 * ((4/3) * pi * (d / 2) ^ 3))"
    and "0.5 * (ASTEROID_DENSITY_KGM3 * ((4/3) * pi * (d / 2) ^ 3)) \<le> 10 ^ 155"
    and "1 / 10 ^ 100 \<le> v ^ 2" and "v ^ 2 \<le> 10 ^ 100"
    and "1 / 10 ^ 254 \<le> 0.5 * (ASTEROID_DENSITY_KGM3 * ((4/3) * pi * (d / 2) ^ 3)) * v ^ 2"
    and "0.5 * (ASTEROID_DENSITY_KGM3 * ((4/3) * pi * (d / 2) ^ 3)) * v ^ 2 \<le> 10 ^ 255"
    and "1 / 10 ^ 270 \<le> 0.5 * (ASTEROID_DENSITY_KGM3 * ((4/3) * pi * (d / 2) ^ 3)) * v ^ 2
           / JOULES_PER_MEGATON_TNT"
    and "0.5 * (ASTEROID_DENSITY_KGM3 * ((4/3) * pi * (d / 2) ^ 3)) * v ^ 2
           / JOULES_PER_MEGATON_TNT \<le> 10 ^ 255"
proof -
  show r1: "1 / 10 ^ 51 \<le> d / 2" using d1 by simp
  show r2: "d / 2 \<le> 10 ^ 50" using d2 by simp
  have "(1 / 10 ^ 51) ^ 3 \<le> (d / 2) ^ 3" using r1 by (intro power_mono) simp_all
  then show c1: "1 / 10 ^ 153 \<le> (d / 2) ^ 3"
    by (simp only: power_divide power_one flip: power_mult) simp
  have rpos: "0 \<le> d / 2" using r1 by (rule order_trans [rotated]) simp
  have "(d / 2) ^ 3 \<le> (10 ^ 50) ^ 3" using r2 rpos by (intro power_mono)
  then show c2: "(d / 2) ^ 3 \<le> 10 ^ 150"
    by (simp only: flip: power_mult) simp
  have p1: "1 \<le> (4/3) * pi" using pi_ge_two by simp
  have p2: "(4/3) * pi \<le> 10" using pi_less_4 by simp
  from range_mult [OF p1 p2 c1 c2]
  show vl: "1 / 10 ^ 153 \<le> (4/3) * pi * (d / 2) ^ 3"
    and vh: "(4/3) * pi * (d / 2) ^ 3 \<le> 10 ^ 151"
    by simp_all
  have a1: "1 \<le> ASTEROID_DENSITY_KGM3" and a2: "ASTEROID_DENSITY_KGM3 \<le> 10 ^ 4"
    by (simp_all add: ASTEROID_DENSITY_KGM3_def)
  from range_mult [OF a1 a2 vl vh]
  show ml: "1 / 10 ^ 153 \<le> ASTEROID_DENSITY_KGM3 * ((4/3) * pi * (d / 2) ^ 3)"
    and mh: "ASTEROID_DENSITY_KGM3 * ((4/3) * pi * (d / 2) ^ 3) \<le> 10 ^ 155"
    by simp_all
  have h1: "1 / 10 \<le> (0.5 :: real)" and h2: "(0.5 :: real) \<le> 1" by simp_all
  from range_mult [OF h1 h2 ml mh]
  show hl: "1 / 10 ^ 154 \<le> 0.5 * (ASTEROID_DENSITY_KGM3 * ((4/3) * pi * (d / 2) ^ 3))"
    and hh: "0.5 * (ASTEROID_DENSITY_KGM3 * ((4/3) * pi * (d / 2) ^ 3)) \<le> 10 ^ 155"
    by simp_all
  have "(1 / 10 ^ 50) ^ 2 \<le> \<bar>v\<bar> ^ 2" using v1 by (intro power_mono) simp_all
  then show s1: "1 / 10 ^ 100 \<le> v ^ 2"
    by (simp only: power_divide power_one power2_abs flip: power_mult) simp
  have "\<bar>v\<bar> ^ 2 \<le> (10 ^ 50) ^ 2" using v2 by (intro power_mono) simp_all
  then show s2: "v ^ 2 \<le> 10 ^ 100"
    by (simp only: power2_abs flip: power_mult) simp
  from range_mult [OF hl hh s1 s2]
  show jl: "1 / 10 ^ 254 \<le> 0.5 * (ASTEROID_DENSITY_KGM3 * ((4/3) * pi * (d / 2) ^ 3)) * v ^ 2"
    and jh: "0.5 * (ASTEROID_DENSITY_KGM3 * ((4/3) * pi * (d / 2) ^ 3)) * v ^ 2 \<le> 10 ^ 255"
    by simp_all
  have k1: "1 / 10 ^ 16 \<le> 1 / JOULES_PER_MEGATON_TNT"
    and k2: "1 / JOULES_PER_MEGATON_TNT \<le> 1"
    by (simp_all add: JOULES_PER_MEGATON_TNT_def)
  from range_mult [OF jl jh k1 k2]
  show "1 / 10 ^ 270 \<le> 0.5 * (ASTEROID_DENSITY_KGM3 * ((4/3) * pi * (d / 2) ^ 3)) * v ^ 2
           / JOULES_PER_MEGATON_TNT"
    and "0.5 * (ASTEROID_DENSITY_KGM3 * ((4/3) * pi * (d / 2) ^ 3)) * v ^ 2
           / JOULES_PER_MEGATON_TNT \<le> 10 ^ 255"
    by simp_all
qed

lemma energy_floats:
  fixes d v :: real
  assumes d1: "1 / 10 ^ 50 \<le> d" and d2: "d \<le> 10 ^ 50"
    and v1: "1 / 10 ^ 50 \<le> \<bar>v\<bar>" and v2: "\<bar>v\<bar> \<le> 10 ^ 50"
  shows "fdiv (Fin d) (Fin 2) = Fin (d / 2)"
    and "fpow_int (Fin (d / 2)) 3 = Inr (Fin ((d / 2) ^ 3))"
    and "fmul (Fin ((4/3) * pi)) (Fin ((d / 2) ^ 3)) = Fin ((4/3) * pi * (d / 2) ^ 3)"
    and "fmul (Fin ASTEROID_DENSITY_KGM3) (Fin ((4/3) * pi * (d / 2) ^ 3)) =
           Fin (ASTEROID_DENSITY_KGM3 * ((4/3) * pi * (d / 2) ^ 3))"
    and "fpow_int (Fin v) 2 = Inr (Fin (v ^ 2))"
    and "fmul (Fin 0.5) (Fin (ASTEROID_DENSITY_KGM3 * ((4/3) * pi * (d / 2) ^ 3))) =
           Fin (0.5 * (ASTEROID_DENSITY_KGM3 * ((4/3) * pi * (d / 2) ^ 3)))"
    and "fmul (Fin (0.5 * (ASTEROID_DENSITY_KGM3 * ((4/3) * pi * (d / 2) ^ 3)))) (Fin (v ^ 2)) =
           Fin (0.5 * (ASTEROID_DENSITY_KGM3 * ((4/3) * pi * (d / 2) ^ 3)) * v ^ 2)"
    and "fdiv (Fin (0.5 * (ASTEROID_DENSITY_KGM3 * ((4/3) * pi * (d / 2) ^ 3)) * v ^ 2))
             (Fin JOULES_PER_MEGATON_TNT) =
           Fin (0.5 * (ASTEROID_DENSITY_KGM3 * ((4/3) * pi * (d / 2) ^ 3)) * v ^ 2
                / JOULES_PER_MEGATON_TNT)"
proof -
  note r = energy_ranges [OF d1 d2 v1 v2]
  have "to_float (d / 2) = Fin (d / 2)"
    using r(1,2) by (rule to_float_range) simp_all
  then show "fdiv (Fin d) (Fin 2) = Fin (d / 2)" by simp
  show "fpow_int (Fin (d / 2)) 3 = Inr (Fin ((d / 2) ^ 3))"
    using r(3,4) by (rule fpow_int_range) simp_all
  have "to_float ((4/3) * pi * (d / 2) ^ 3) = Fin ((4/3) * pi * (d / 2) ^ 3)"
    using r(5,6) by (rule to_float_range) simp_all
  then show "fmul (Fin ((4/3) * pi)) (Fin ((d / 2) ^ 3)) = Fin ((4/3) * pi * (d / 2) ^ 3)"
    by simp
  have "to_float (ASTEROID_DENSITY_KGM3 * ((4/3) * pi * (d / 2) ^ 3)) =
      Fin (ASTEROID_DENSITY_KGM3 * ((4/3) * pi * (d / 2) ^ 3))"
    using r(7,8) by (rule to_float_range) simp_all
  then show "fmul (Fin ASTEROID_DENSITY_KGM3) (Fin ((4/3) * pi * (d / 2) ^ 3)) =
           Fin (ASTEROID_DENSITY_KGM3 * ((4/3) * pi * (d / 2) ^ 3))"
    by simp
  show "fpow_int (Fin v) 2 = Inr (Fin (v ^ 2))"
    using r(11,12) by (rule fpow_int_range) simp_all
  have "to_float (0.5 * (ASTEROID_DENSITY_KGM3 * ((4/3) * pi * (d / 2) ^ 3))) =
      Fin (0.5 * (ASTEROID_DENSITY_KGM3 * ((4/3) * pi * (d / 2) ^ 3)))"
    using r(9,10) by (rule to_float_range) simp_all
  then show "fmul (Fin 0.5) (Fin (ASTEROID_DENSITY_KGM3 * ((4/3) * pi * (d / 2) ^ 3))) =
           Fin (0.5 * (ASTEROID_DENSITY_KGM3 * ((4/3) * pi * (d / 2) ^ 3)))"
    by (simp only: fmul.simps)
  have "to_float (0.5 * (ASTEROID_DENSITY_KGM3 * ((4/3) * pi * (d / 2) ^ 3)) * v ^ 2) =
      Fin (0.5 * (ASTEROID_DENSITY_KGM3 * ((4/3) * pi * (d / 2) ^ 3)) * v ^ 2)"
    using r(13,14) by (rule to_float_range) simp_all
  then show "fmul (Fin (0.5 * (ASTEROID_DENSITY_KGM3 * ((4/3) * pi * (d / 2) ^ 3)))) (Fin (v ^ 2)) =
           Fin (0.5 * (ASTEROID_DENSITY_KGM3 * ((4/3) * pi * (d / 2) ^ 3)) * v ^ 2)"
    by (simp only: fmul.simps)
  have k: "JOULES_PER_MEGATON_TNT \<noteq> 0" by (simp add: JOULES_PER_MEGATON_TNT_def)
  have "to_float (0.5 * (ASTEROID_DENSITY_KGM3 * ((4/3) * pi * (d / 2) ^ 3)) * v ^ 2
                / JOULES_PER_MEGATON_TNT) =
      Fin (0.5 * (ASTEROID_DENSITY_KGM3 * ((4/3) * pi * (d / 2) ^ 3)) * v ^ 2
                / JOULES_PER_MEGATON_TNT)"
    using r(15,16) by (rule to_float_range) simp_all
  then show "fdiv (Fin (0.5 * (ASTEROID_DENSITY_KGM3 * ((4/3) * pi * (d / 2) ^ 3)) * v ^ 2))
             (Fin JOULES_PER_MEGATON_TNT) =
           Fin (0.5 * (ASTEROID_DENSITY_KGM3 * ((4/3) * pi * (d / 2) ^ 3)) * v ^ 2
                / JOULES_PER_MEGATON_TNT)"
    using k by (simp only: fdiv.simps if_True simp_thms)
qed

lemma crater_floats:
  fixes Mt :: real
  assumes m1: "1 / 10 ^ 270 \<le> Mt" and m2: "Mt \<le> 10 ^ 255"
  shows "mul_int 90 (pow_third (Fin Mt)) = PyFloat (Fin (90 * Mt powr (1/3)))"
    and "mul_int 30 (pow_third (Fin Mt)) = PyFloat (Fin (30 * Mt powr (1/3)))"
    and "1 / 10 ^ 100 \<le> 90 * Mt powr (1/3)" and "90 * Mt powr (1/3) \<le> 10 ^ 102"
proof -
  have lo: "1 / 10 ^ 300 \<le> Mt" using m1 by (rule order_trans [rotated]) simp
  have hi: "Mt \<le> 10 ^ 300" using m2 by (rule order_trans) simp
  note p = powr_third_range [OF lo hi]
  have pos: "0 \<le> Mt" using lo by (rule order_trans [rotated]) simp
  have c1: "(1::real) \<le> 90" and c2: "(90::real) \<le> 10 ^ 2"
    and e1: "(1::real) \<le> 30" and e2: "(30::real) \<le> 10 ^ 2" by simp_all
  from range_mult [OF c1 c2 p]
  show b1: "1 / 10 ^ 100 \<le> 90 * Mt powr (1/3)" and b2: "90 * Mt powr (1/3) \<le> 10 ^ 102"
    by simp_all
  from range_mult [OF e1 e2 p]
  have s1: "1 / 10 ^ 100 \<le> 30 * Mt powr (1/3)" and s2: "30 * Mt powr (1/3) \<le> 10 ^ 102"
    by simp_all
  have "to_float (90 * Mt powr (1/3)) = Fin (90 * Mt powr (1/3))"
    using b1 b2 by (rule to_float_range) simp_all
  then show "mul_int 90 (pow_third (Fin Mt)) = PyFloat (Fin (90 * Mt powr (1/3)))"
    using pos by simp
  have "to_float (30 * Mt powr (1/3)) = Fin (30 * Mt powr (1/3))"
    using s1 s2 by (rule to_float_range) simp_all
  then show "mul_int 30 (pow_third (Fin Mt)) = PyFloat (Fin (30 * Mt powr (1/3)))"
    using pos by simp
qed

lemma sin_ge_half_arg:
  fixes x :: real
  assumes "0 \<le> x" "x \<le> pi / 3"
  shows "x / 2 \<le> sin x"
proof -
  have "sin 0 - 0 / 2 \<le> sin x - x / 2"
  proof (rule DERIV_nonneg_imp_nondecreasing [OF assms(1)])
    fix t :: real
    assume t: "0 \<le> t" "t \<le> x"
    have "cos (pi / 3) \<le> cos t"
      using t assms(2) pi_gt_zero by (intro cos_monotone_0_pi_le) linarith+
    then have "0 \<le> cos t - 1 / 2" by (simp add: cos_60)
    moreover have "((\<lambda>u. sin u - u / 2) has_real_derivative (cos t - 1 / 2)) (at t)"
      by (auto intro!: derivative_eq_intros)
    ultimately show "\<exists>y. ((\<lambda>u. sin u - u / 2) has_real_derivative y) (at t) \<and> 0 \<le> y"
      by blast
  qed
  then show ?thesis by simp
qed

lemma angle_ranges:
  fixes a :: real
  assumes a1: "1 / 10 ^ 50 \<le> a" and a2: "a \<le> 90"
  shows "np_sin (np_radians a) = sin (a * pi / 180)"
    and "1 / 10 ^ 54 \<le> sin (a * pi / 180)"
    and "sin (a * pi / 180) \<le> 1"
    and "sin (a * pi / 180) = 1 \<longleftrightarrow> a = 90"
proof -
  let ?x = "a * pi / 180"
  have p1: "1 / 180 \<le> pi / 180" and p2: "pi / 180 \<le> 1" using pi_ge_two pi_less_4 by simp_all
  have a3: "a \<le> 10 ^ 2" using a2 by simp
  have c1: "0 < (1 / 10 ^ 50 :: real)" and c2: "0 < (1 / 180 :: real)" by simp_all
  from range_mult(1) [OF a1 a3 p1 p2 c1 c2]
  have lo: "1 / 10 ^ 53 \<le> ?x"
    by (intro order_trans [of "1 / 10 ^ 53" "1 / 10 ^ 50 * (1 / 180)" ?x]) simp_all
  have pos: "0 < ?x" using lo by (rule less_le_trans [rotated]) simp
  have "a * pi \<le> 90 * pi" using a2 pi_gt_zero by (intro mult_right_mono) simp_all
  then have hi: "?x \<le> pi / 2" by simp
  have "DBL_UNDERFLOW < ?x"
    using lo by (rule less_le_trans [rotated]) (simp add: DBL_UNDERFLOW_def)
  then have "\<not> \<bar>?x\<bar> \<le> DBL_UNDERFLOW" using pos by simp
  then show "np_sin (np_radians a) = sin ?x"
    by (simp add: np_sin_def np_radians_def)
  show "sin ?x \<le> 1" by (rule sin_le_one)
  show "1 / 10 ^ 54 \<le> sin ?x"
  proof (cases "?x \<le> pi / 3")
    case True
    have "?x / 2 \<le> sin ?x" using pos True by (intro sin_ge_half_arg) simp_all
    moreover have "1 / 10 ^ 53 / 2 \<le> ?x / 2" using lo by simp
    moreover have "(1 / 10 ^ 54 :: real) \<le> 1 / 10 ^ 53 / 2" by simp
    ultimately show ?thesis by linarith
  next
    case False
    then have "pi / 3 \<le> ?x" by simp
    then have "sin (pi / 3) \<le> sin ?x"
      using hi pi_gt_zero by (intro sin_monotone_2pi_le) linarith+
    then have "sqrt 3 / 2 \<le> sin ?x" by (simp only: sin_60)
    moreover have "1 \<le> sqrt 3" by (rule real_le_rsqrt) simp
    ultimately have "1 / 2 \<le> sin ?x" by linarith
    then show ?thesis by (rule order_trans [rotated]) simp
  qed
  show "sin ?x = 1 \<longleftrightarrow> a = 90"
  proof
    assume "sin ?x = 1"
    then have eq: "sin ?x = sin (pi / 2)" by simp
    have l1: "- (pi / 2) \<le> ?x" using pos pi_gt_zero by linarith
    have l2: "- (pi / 2) \<le> pi / 2" using pi_gt_zero by linarith
    have "?x = pi / 2"
      using l1 hi l2 order_refl eq by (rule sin_inj_pi)
    then show "a = 90" by simp
  next
    assume "a = 90"
    then show "sin ?x = 1" by simp
  qed
qed

lemma long_floats:
  fixes b s :: real
  assumes b1: "1 / 10 ^ 100 \<le> b" and b2: "b \<le> 10 ^ 102"
    and s1: "1 / 10 ^ 54 \<le> s" and s2: "s \<le> 1"
  shows "fdiv (Fin b) (Fin s) = Fin (b / s)"
    and "div_1000 (mul_int 3 (PyFloat (Fin (b / s)))) = PyFloat (Fin (3 * (b / s) / 1000))"
proof -
  have spos: "0 < s" using s1 by (rule less_le_trans [rotated]) simp
  have i1: "1 \<le> 1 / s" using spos s2 by simp
  have "1 / s \<le> 1 / (1 / 10 ^ 54)" using s1 by (intro divide_left_mono) simp_all
  then have i2: "1 / s \<le> 10 ^ 54" by simp
  have c1: "0 < (1 / 10 ^ 100 :: real)" and c2: "0 < (1 :: real)" by simp_all
  from range_mult [OF b1 b2 i1 i2 c1 c2]
  have l1: "1 / 10 ^ 100 \<le> b / s" and l2: "b / s \<le> 10 ^ 156" by simp_all
  have "to_float (b / s) = Fin (b / s)" using l1 l2 by (rule to_float_range) simp_all
  then show "fdiv (Fin b) (Fin s) = Fin (b / s)" using spos by simp
  have t1: "(1 :: real) \<le> 3" and t2: "(3 :: real) \<le> 10" by simp_all
  from range_mult [OF t1 t2 l1 l2]
  have m1: "1 / 10 ^ 100 \<le> 3 * (b / s)" and m2: "3 * (b / s) \<le> 10 ^ 157" by simp_all
  have m: "to_float (3 * (b / s)) = Fin (3 * (b / s))"
    using m1 m2 by (rule to_float_range) simp_all
  have k1: "(1 / 10 ^ 3 :: real) \<le> 1 / 1000" and k2: "(1 / 1000 :: real) \<le> 1" by simp_all
  have c3: "0 < (1 / 10 ^ 3 :: real)" by simp
  from range_mult [OF m1 m2 k1 k2 c1 c3]
  have n1: "1 / 10 ^ 103 \<le> 3 * (b / s) / 1000" and n2: "3 * (b / s) / 1000 \<le> 10 ^ 157"
    by simp_all
  have n: "to_float (3 * (b / s) / 1000) = Fin (3 * (b / s) / 1000)"
    using n1 n2 by (rule to_float_range) simp_all
  have "mul_int 3 (PyFloat (Fin (b / s))) = PyFloat (Fin (3 * (b / s)))"
    using m by simp
  moreover have "div_1000 (PyFloat (Fin (3 * (b / s)))) = PyFloat (Fin (3 * (b / s) / 1000))"
    using n by simp
  ultimately show "div_1000 (mul_int 3 (PyFloat (Fin (b / s)))) =
      PyFloat (Fin (3 * (b / s) / 1000))"
    by (simp only:)
qed

lemma div_ge_self:
  fixes b s :: real
  assumes "0 < b" "0 < s" "s \<le> 1"
  shows "b \<le> b / s"
proof -
  have "b * s \<le> b * 1" using assms by (intro mult_left_mono) simp_all
  then show "b \<le> b / s" using assms(2) by (simp add: pos_le_divide_eq)
qed

section \<open>The report\<close>

lemma severity_keys:
  "\<exists>band color actions. get_severity_details e =
     [(''band'', band), (''color'', color), (''actions'', actions)]"
  by (simp add: get_severity_details_def)

lemma severity_float_keys:
  "\<exists>band color actions. get_severity_details_float x =
     [(''band'', band), (''color'', color), (''actions'', actions)]"
  by (cases x) (simp_all add: severity_keys)

lemma assemble_output_keys:
  "assemble_output utcnow a lat lon w J Mt long short prec
       [(''band'', band), (''color'', color), (''actions'', actions)] air shock tsu =
     Inr [(''impact_body'', PyStr ''Earth''),
           (''impact_coords'', PyDict [(''lat'', lat), (''lon'', lon)]),
           (''impact_in_water'', PyBool w),
           (''impact_energy_J'', PyNum (PyFloat J)),
           (''impact_energy_Mt'', PyNum (PyFloat Mt)),
           (''crater_details'',
              PyDict [(''shape'', PyStr (if a < 80 then ''oval'' else ''circular'')),
                      (''long_axis_m_est'', PyNum long),
                      (''short_axis_m_est'', PyNum short)]),
           (''precaution_radius_km_est'', PyNum prec),
           (''severity_band'', band),
           (''severity_color'', color),
           (''shockwave_effects'',
              PyDict [(''is_airburst_risk'', PyBool air),
                      (''damage_radius_km_est'', shock),
                      (''description'',
                         PyStr (if air
                                then ''Widespread window breakage expected. Risk of injury from flying glass.''
                                else ''Negligible atmospheric shockwave effects.''))]),
           (''tsunami_risk'', PyBool tsu),
           (''recommended_actions'', actions),
           (''confidence_pct'', PyInt 75),
           (''notes'', PyStr ''Prototype estimate based on simplified models. Not for official use.''),
           (''timestamp_utc'', PyStr (utcnow @ ''Z''))]"
  by (simp add: assemble_output_def getitem_def)

lemma assemble_output_fields:
  assumes "\<exists>band color actions. severity =
     [(''band'', band), (''color'', color), (''actions'', actions)]"
  shows "\<exists>r. assemble_output utcnow a lat lon w J Mt long short prec severity
           air shock tsu = Inr r
    \<and> field ''impact_energy_J'' r = Some (PyNum (PyFloat J))
    \<and> field ''impact_energy_Mt'' r = Some (PyNum (PyFloat Mt))
    \<and> subfield ''crater_details'' ''short_axis_m_est'' r = Some (PyNum short)
    \<and> subfield ''crater_details'' ''long_axis_m_est'' r = Some (PyNum long)
    \<and> subfield ''crater_details'' ''shape'' r =
        Some (PyStr (if a < 80 then ''oval'' else ''circular''))
    \<and> field ''precaution_radius_km_est'' r = Some (PyNum prec)
    \<and> subfield ''shockwave_effects'' ''is_airburst_risk'' r = Some (PyBool air)
    \<and> subfield ''shockwave_effects'' ''damage_radius_km_est'' r = Some shock
    \<and> field ''tsunami_risk'' r = Some (PyBool tsu)
    \<and> field ''severity_band'' r = map_of severity ''band''"
proof -
  from assms obtain band color actions where sev:
    "severity = [(''band'', band), (''color'', color), (''actions'', actions)]"
    by blast
  show ?thesis
    unfolding sev assemble_output_keys
    by (simp add: field_def subfield_def)
qed

lemma assemble_output_clock:
  assumes "\<exists>band color actions. severity =
     [(''band'', band), (''color'', color), (''actions'', actions)]"
  shows "map_sum id (filter (\<lambda>kv. fst kv \<noteq> ''timestamp_utc''))
     (assemble_output utcnow a lat lon w J Mt long short prec severity air shock tsu) =
   map_sum id (filter (\<lambda>kv. fst kv \<noteq> ''timestamp_utc''))
     (assemble_output utcnow' a lat lon w J Mt long short prec severity air shock tsu)"
proof -
  from assms obtain band color actions where sev:
    "severity = [(''band'', band), (''color'', color), (''actions'', actions)]"
    by blast
  show ?thesis
    unfolding sev assemble_output_keys by simp
qed

lemma earth_report:
  fixes d v a :: real
  defines "J \<equiv> 0.5 * (ASTEROID_DENSITY_KGM3 * ((4/3) * pi * (d / 2) ^ 3)) * v ^ 2"
  defines "Mt \<equiv> J / JOULES_PER_MEGATON_TNT"
  defines "long \<equiv> PyFloat (fdiv (Fin (90 * Mt powr (1/3))) (Fin (np_sin (np_radians a))))"
  assumes d1: "1 / 10 ^ 50 \<le> d" and d2: "d \<le> 10 ^ 50"
    and v1: "1 / 10 ^ 50 \<le> \<bar>v\<bar>" and v2: "\<bar>v\<bar> \<le> 10 ^ 50"
  shows "calculate_impact_effects utcnow d v a lat lon ''Earth'' w =
      assemble_output utcnow a lat lon w (Fin J) (Fin Mt) long
        (PyFloat (Fin (90 * Mt powr (1/3))))
        (div_1000 (mul_int 3 long))
        (get_severity_details Mt) (0.1 \<le> Mt \<and> Mt < 1000)
        (if 0.1 \<le> Mt \<and> Mt < 1000 then PyNum (PyFloat (Fin (30 * Mt powr (1/3)))) else PyInt 0)
        (w \<and> 1 < Mt)"
proof -
  note f = energy_floats [OF d1 d2 v1 v2, folded J_def Mt_def]
  note r = energy_ranges(15,16) [OF d1 d2 v1 v2, folded J_def Mt_def]
  note c = crater_floats(1,2) [OF r]
  show ?thesis
    unfolding calculate_impact_effects_def Let_def
    by (simp only: f c sum.case truediv_np.simps get_severity_details_float.simps
        fle.simps flt.simps long_def refl if_False simp_thms)
qed

lemma earth_fields:
  fixes d v a :: real
  defines "J \<equiv> 0.5 * (ASTEROID_DENSITY_KGM3 * ((4/3) * pi * (d / 2) ^ 3)) * v ^ 2"
  defines "Mt \<equiv> J / JOULES_PER_MEGATON_TNT"
  defines "long \<equiv> PyFloat (fdiv (Fin (90 * Mt powr (1/3))) (Fin (np_sin (np_radians a))))"
  assumes d1: "1 / 10 ^ 50 \<le> d" and d2: "d \<le> 10 ^ 50"
    and v1: "1 / 10 ^ 50 \<le> \<bar>v\<bar>" and v2: "\<bar>v\<bar> \<le> 10 ^ 50"
  shows "\<exists>r. calculate_impact_effects utcnow d v a lat lon ''Earth'' w = Inr r
    \<and> field ''impact_energy_J'' r = Some (PyNum (PyFloat (Fin J)))
    \<and> field ''impact_energy_Mt'' r = Some (PyNum (PyFloat (Fin Mt)))
    \<and> subfield ''crater_details'' ''short_axis_m_est'' r =
        Some (PyNum (PyFloat (Fin (90 * Mt powr (1/3)))))
    \<and> subfield ''crater_details'' ''long_axis_m_est'' r = Some (PyNum long)
    \<and> subfield ''crater_details'' ''shape'' r =
        Some (PyStr (if a < 80 then ''oval'' else ''circular''))
    \<and> field ''precaution_radius_km_est'' r = Some (PyNum (div_1000 (mul_int 3 long)))
    \<and> subfield ''shockwave_effects'' ''is_airburst_risk'' r =
        Some (PyBool (0.1 \<le> Mt \<and> Mt < 1000))
    \<and> subfield ''shockwave_effects'' ''damage_radius_km_est'' r =
        Some (if 0.1 \<le> Mt \<and> Mt < 1000 then PyNum (PyFloat (Fin (30 * Mt powr (1/3))))
              else PyInt 0)
    \<and> field ''tsunami_risk'' r = Some (PyBool (w \<and> 1 < Mt))
    \<and> field ''severity_band'' r = map_of (get_severity_details Mt) ''band''"
  unfolding long_def earth_report [OF d1 d2 v1 v2, folded J_def Mt_def]
  by (rule assemble_output_fields) (rule severity_keys)

lemma earth_fields_valid:
  fixes d v a :: real
  defines "J \<equiv> 0.5 * (ASTEROID_DENSITY_KGM3 * ((4/3) * pi * (d / 2) ^ 3)) * v ^ 2"
  defines "Mt \<equiv> J / JOULES_PER_MEGATON_TNT"
  assumes d1: "1 / 10 ^ 50 \<le> d" and d2: "d \<le> 10 ^ 50"
    and v1: "1 / 10 ^ 50 \<le> \<bar>v\<bar>" and v2: "\<bar>v\<bar> \<le> 10 ^ 50"
    and a1: "1 / 10 ^ 50 \<le> a" and a2: "a \<le> 90"
  shows "\<exists>r. calculate_impact_effects utcnow d v a lat lon ''Earth'' w = Inr r
    \<and> field ''impact_energy_J'' r = Some (PyNum (PyFloat (Fin J)))
    \<and> field ''impact_energy_Mt'' r = Some (PyNum (PyFloat (Fin Mt)))
    \<and> subfield ''crater_details'' ''short_axis_m_est'' r =
        Some (PyNum (PyFloat (Fin (90 * Mt powr (1/3)))))
    \<and> subfield ''crater_details'' ''long_axis_m_est'' r =
        Some (PyNum (PyFloat (Fin (90 * Mt powr (1/3) / sin (a * pi / 180)))))
    \<and> subfield ''crater_details'' ''shape'' r =
        Some (PyStr (if a < 80 then ''oval'' else ''circular''))
    \<and> field ''precaution_radius_km_est'' r =
        Some (PyNum (PyFloat (Fin (3 * (90 * Mt powr (1/3) / sin (a * pi / 180)) / 1000))))
    \<and> subfield ''shockwave_effects'' ''is_airburst_risk'' r =
        Some (PyBool (0.1 \<le> Mt \<and> Mt < 1000))
    \<and> subfield ''shockwave_effects'' ''damage_radius_km_est'' r =
        Some (if 0.1 \<le> Mt \<and> Mt < 1000 then PyNum (PyFloat (Fin (30 * Mt powr (1/3))))
              else PyInt 0)
    \<and> field ''tsunami_risk'' r = Some (PyBool (w \<and> 1 < Mt))
    \<and> field ''severity_band'' r = map_of (get_severity_details Mt) ''band''"
proof -
  note r = energy_ranges(15,16) [OF d1 d2 v1 v2, folded J_def Mt_def]
  note c = crater_floats(3,4) [OF r]
  note s = angle_ranges [OF a1 a2]
  note l = long_floats [OF c s(2,3)]
  from earth_fields [OF d1 d2 v1 v2, of utcnow a lat lon w]
  show ?thesis
    unfolding J_def [symmetric] Mt_def [symmetric] s(1) l .
qed

lemma earth_angle_zero:
  fixes d v :: real
  assumes d1: "1 / 10 ^ 50 \<le> d" and d2: "d \<le> 10 ^ 50"
    and v1: "1 / 10 ^ 50 \<le> \<bar>v\<bar>" and v2: "\<bar>v\<bar> \<le> 10 ^ 50"
  shows "\<exists>r. calculate_impact_effects utcnow d v 0 lat lon ''Earth'' w = Inr r
    \<and> subfield ''crater_details'' ''long_axis_m_est'' r = Some (PyNum (PyFloat PosInf))
    \<and> field ''precaution_radius_km_est'' r = Some (PyNum (PyFloat PosInf))"
proof -
  define Mt where "Mt = 0.5 * (ASTEROID_DENSITY_KGM3 * ((4/3) * pi * (d / 2) ^ 3)) * v ^ 2
      / JOULES_PER_MEGATON_TNT"
  note r = energy_ranges(15,16) [OF d1 d2 v1 v2, folded Mt_def]
  have "0 < 90 * Mt powr (1/3)"
    using crater_floats(3) [OF r] by (rule less_le_trans [rotated]) simp
  then have l: "fdiv (Fin (90 * Mt powr (1/3))) (Fin (np_sin (np_radians 0))) = PosInf"
    by (simp add: np_sin_def np_radians_def DBL_UNDERFLOW_def)
  have p: "div_1000 (mul_int 3 (PyFloat PosInf)) = PyFloat PosInf" by simp
  from earth_fields [OF d1 d2 v1 v2, of utcnow 0 lat lon w]
  show ?thesis
    unfolding Mt_def [symmetric] l p by blast
qed

lemma earth_energy_band:
  fixes d v a :: real
  assumes d1: "1 / 10 ^ 50 \<le> d" and d2: "d \<le> 10 ^ 50"
    and v1: "1 / 10 ^ 50 \<le> v" and v2: "v \<le> 10 ^ 50"
  shows "\<exists>r. calculate_impact_effects utcnow d v a lat lon ''Earth'' w = Inr r
    \<and> field ''impact_energy_Mt'' r = Some (PyNum (PyFloat (Fin
         (0.5 * (ASTEROID_DENSITY_KGM3 * ((4/3) * pi * (d / 2) ^ 3)) * v ^ 2
            / JOULES_PER_MEGATON_TNT))))
    \<and> field ''severity_band'' r = map_of (get_severity_details
         (0.5 * (ASTEROID_DENSITY_KGM3 * ((4/3) * pi * (d / 2) ^ 3)) * v ^ 2
            / JOULES_PER_MEGATON_TNT)) ''band''"
proof -
  have v: "1 / 10 ^ 50 \<le> \<bar>v\<bar>" "\<bar>v\<bar> \<le> 10 ^ 50" using v1 v2 by simp_all
  from earth_fields [OF d1 d2 v, of utcnow a lat lon w] show ?thesis by blast
qed

section \<open>Overflow and underflow\<close>

lemma overflow_diameter:
  fixes d :: real
  assumes r1: "1 / 10 ^ 300 \<le> d / 2" and r2: "d / 2 \<le> 10 ^ 300"
    and o: "DBL_OVERFLOW \<le> (d / 2) ^ 3"
  shows "calculate_impact_effects utcnow d v a lat lon ''Earth'' w = Inl OverflowError"
proof -
  have "to_float (d / 2) = Fin (d / 2)" using r1 r2 by (rule to_float_normal)
  then have f: "fdiv (Fin d) (Fin 2) = Fin (d / 2)" by simp
  have "DBL_OVERFLOW \<le> \<bar>(d / 2) ^ 3\<bar>" using o by simp
  then have p: "fpow_int (Fin (d / 2)) 3 = Inl OverflowError" by simp
  show ?thesis
    unfolding calculate_impact_effects_def Let_def
    by (simp only: f p sum.case refl if_False simp_thms)
qed

lemma overflow_speed:
  fixes d v :: real
  assumes d1: "1 / 10 ^ 50 \<le> d" and d2: "d \<le> 10 ^ 50"
    and o: "DBL_OVERFLOW \<le> v ^ 2"
  shows "calculate_impact_effects utcnow d v a lat lon ''Earth'' w = Inl OverflowError"
proof -
  have u: "1 / 10 ^ 50 \<le> \<bar>1 :: real\<bar>" "\<bar>1 :: real\<bar> \<le> 10 ^ 50" by simp_all
  note f = energy_floats(1,2) [OF d1 d2 u]
  have "DBL_OVERFLOW \<le> \<bar>v ^ 2\<bar>" using o by simp
  then have p: "fpow_int (Fin v) 2 = Inl OverflowError" by simp
  show ?thesis
    unfolding calculate_impact_effects_def Let_def
    by (simp only: f p sum.case refl if_False simp_thms)
qed

lemma earth_underflow:
  fixes d v :: real
  assumes r1: "1 / 10 ^ 300 \<le> d / 2" and r2: "d / 2 \<le> 10 ^ 300"
    and u: "(d / 2) ^ 3 \<le> DBL_UNDERFLOW"
    and s1: "1 / 10 ^ 300 \<le> v ^ 2" and s2: "v ^ 2 \<le> 10 ^ 300"
  shows "\<exists>r. calculate_impact_effects utcnow d v a lat lon ''Earth'' w = Inr r
    \<and> field ''impact_energy_Mt'' r = Some (PyNum (PyFloat (Fin 0)))"
proof -
  have "to_float (d / 2) = Fin (d / 2)" using r1 r2 by (rule to_float_normal)
  then have f: "fdiv (Fin d) (Fin 2) = Fin (d / 2)" by simp
  have pos: "0 \<le> (d / 2) ^ 3"
    using r1 by (intro zero_le_power order_trans [OF _ r1]) simp
  have "(d / 2) ^ 3 < DBL_OVERFLOW"
    using u by (rule le_less_trans) (simp add: DBL_OVERFLOW_def DBL_UNDERFLOW_def)
  then have "\<not> DBL_OVERFLOW \<le> \<bar>(d / 2) ^ 3\<bar>" using pos by simp
  moreover have "to_float ((d / 2) ^ 3) = Fin 0"
    using pos u by (rule to_float_underflow)
  ultimately have p: "fpow_int (Fin (d / 2)) 3 = Inr (Fin 0)"
    by (simp only: fpow_int.simps if_False)
  have q: "fpow_int (Fin v) 2 = Inr (Fin (v ^ 2))"
    using s1 s2 by (rule fpow_int_range) simp_all
  have k: "JOULES_PER_MEGATON_TNT \<noteq> 0" by (simp add: JOULES_PER_MEGATON_TNT_def)
  have m: "fmul (Fin x) (Fin 0) = Fin 0" "fmul (Fin 0) (Fin x) = Fin 0" for x
    by (simp_all add: to_float_zero)
  have e: "fdiv (Fin 0) (Fin JOULES_PER_MEGATON_TNT) = Fin 0"
    using k by (simp add: to_float_zero)
  obtain long where l: "truediv_np (mul_int 90 (pow_third (Fin 0))) (np_sin (np_radians a)) =
      Inr long"
    by simp
  have c: "calculate_impact_effects utcnow d v a lat lon ''Earth'' w =
      assemble_output utcnow a lat lon w (Fin 0) (Fin 0) long (mul_int 90 (pow_third (Fin 0)))
        (div_1000 (mul_int 3 long)) (get_severity_details_float (Fin 0))
        (fle (Fin 0.1) (Fin 0) \<and> flt (Fin 0) (Fin 1000))
        (if fle (Fin 0.1) (Fin 0) \<and> flt (Fin 0) (Fin 1000)
         then PyNum (mul_int 30 (pow_third (Fin 0))) else PyInt 0)
        (w \<and> flt (Fin 1) (Fin 0))"
    unfolding calculate_impact_effects_def Let_def
    by (simp only: f p q m e l sum.case refl if_False simp_thms)
  from assemble_output_fields [OF severity_float_keys]
  show ?thesis unfolding c by blast
qed

lemma earth_energy_inf:
  fixes d v a :: real
  assumes r1: "1 / 10 ^ 300 \<le> d / 2" and r2: "d / 2 \<le> 10 ^ 300"
    and c1: "1 / 10 ^ 300 \<le> (d / 2) ^ 3" and c2: "6 * (d / 2) ^ 3 \<le> 10 ^ 300"
    and m: "3500 * (6 * (d / 2) ^ 3) < DBL_OVERFLOW"
    and s1: "1 / 10 ^ 300 \<le> v ^ 2" and s2: "v ^ 2 \<le> 10 ^ 300"
    and o: "DBL_OVERFLOW \<le> 0.5 * (3500 * (2 * (d / 2) ^ 3)) * v ^ 2"
    and a1: "1 / 10 ^ 50 \<le> a" and a2: "a \<le> 90"
  shows "\<exists>r. calculate_impact_effects utcnow d v a lat lon ''Earth'' w = Inr r
    \<and> subfield ''crater_details'' ''long_axis_m_est'' r = Some (PyNum (PyFloat PosInf))
    \<and> subfield ''crater_details'' ''short_axis_m_est'' r = Some (PyNum (PyFloat PosInf))"
proof -
  define X where "X = (d / 2) ^ 3"
  define V where "V = (4/3) * pi * X"
  have xpos: "0 < X" unfolding X_def using c1 by (rule less_le_trans [rotated]) simp
  have p1: "2 \<le> (4/3) * pi" using pi_ge_two by simp
  have p2: "(4/3) * pi \<le> 6" using pi_less_4 by simp
  have v1: "2 * X \<le> V" unfolding V_def using p1 xpos by (intro mult_right_mono) simp_all
  have v2: "V \<le> 6 * X" unfolding V_def using p2 xpos by (intro mult_right_mono) simp_all
  have vpos: "0 < V" using v1 xpos by linarith
  have u: "DBL_UNDERFLOW < 1 / 10 ^ 300" by (simp add: DBL_UNDERFLOW_def)
  have "to_float (d / 2) = Fin (d / 2)" using r1 r2 by (rule to_float_normal)
  then have f1: "fdiv (Fin d) (Fin 2) = Fin (d / 2)" by simp
  have f2: "fpow_int (Fin (d / 2)) 3 = Inr (Fin X)"
    unfolding X_def
    by (rule fpow_int_range [of "(d / 2) ^ 3" _ _ "(d / 2) ^ 3"]) (use c1 c2 xpos X_def in simp_all)
  have "to_float V = Fin V"
    using v1 v2 c1 c2 xpos unfolding X_def [symmetric]
    by (intro to_float_normal) linarith+
  then have f3: "fmul (Fin ((4/3) * pi)) (Fin X) = Fin V"
    by (simp add: V_def)
  have "ASTEROID_DENSITY_KGM3 * V \<le> 3500 * (6 * X)"
    using v2 by (simp add: ASTEROID_DENSITY_KGM3_def)
  then have mh: "ASTEROID_DENSITY_KGM3 * V < DBL_OVERFLOW"
    using m unfolding X_def [symmetric] by linarith
  have ml: "1 / 10 ^ 300 \<le> ASTEROID_DENSITY_KGM3 * V"
    using v1 c1 xpos unfolding X_def [symmetric] ASTEROID_DENSITY_KGM3_def by linarith
  have mpos: "0 < ASTEROID_DENSITY_KGM3 * V"
    using vpos by (simp add: ASTEROID_DENSITY_KGM3_def)
  have "to_float (ASTEROID_DENSITY_KGM3 * V) = Fin (ASTEROID_DENSITY_KGM3 * V)"
    using mpos ml mh u by (intro to_float_fin) linarith+
  then have f4: "fmul (Fin ASTEROID_DENSITY_KGM3) (Fin V) = Fin (ASTEROID_DENSITY_KGM3 * V)"
    by simp
  have hh: "0.5 * (ASTEROID_DENSITY_KGM3 * V) < DBL_OVERFLOW" using mh mpos by linarith
  have hl: "DBL_UNDERFLOW < 0.5 * (ASTEROID_DENSITY_KGM3 * V)"
  proof -
    have "1 / 10 ^ 300 \<le> 0.5 * (ASTEROID_DENSITY_KGM3 * V)"
      using v1 c1 xpos unfolding X_def [symmetric] ASTEROID_DENSITY_KGM3_def by linarith
    with u show ?thesis by linarith
  qed
  have hpos: "0 < 0.5 * (ASTEROID_DENSITY_KGM3 * V)" using mpos by simp
  have "to_float (0.5 * (ASTEROID_DENSITY_KGM3 * V)) = Fin (0.5 * (ASTEROID_DENSITY_KGM3 * V))"
    using hpos hl hh by (rule to_float_fin)
  then have f5: "fmul (Fin 0.5) (Fin (ASTEROID_DENSITY_KGM3 * V)) =
      Fin (0.5 * (ASTEROID_DENSITY_KGM3 * V))"
    by (simp only: fmul.simps)
  have f6: "fpow_int (Fin v) 2 = Inr (Fin (v ^ 2))"
    using s1 s2 by (rule fpow_int_range) simp_all
  have spos: "0 \<le> v ^ 2" by simp
  have "0.5 * (3500 * (2 * X)) * v ^ 2 \<le> 0.5 * (ASTEROID_DENSITY_KGM3 * V) * v ^ 2"
    using v1 spos unfolding ASTEROID_DENSITY_KGM3_def by (intro mult_right_mono) simp_all
  then have "DBL_OVERFLOW \<le> 0.5 * (ASTEROID_DENSITY_KGM3 * V) * v ^ 2"
    using o unfolding X_def [symmetric] by linarith
  then have "to_float (0.5 * (ASTEROID_DENSITY_KGM3 * V) * v ^ 2) = PosInf"
    by (rule to_float_overflow)
  then have f7: "fmul (Fin (0.5 * (ASTEROID_DENSITY_KGM3 * V))) (Fin (v ^ 2)) = PosInf"
    by (simp only: fmul.simps)
  have f8: "fdiv PosInf (Fin JOULES_PER_MEGATON_TNT) = PosInf"
    by (simp add: JOULES_PER_MEGATON_TNT_def)
  have f9: "mul_int 90 (pow_third PosInf) = PyFloat PosInf" by simp
  note s = angle_ranges(1,2) [OF a1 a2]
  have "0 \<le> sin (a * pi / 180)" using s(2) by (rule order_trans [rotated]) simp
  then have f10: "truediv_np (PyFloat PosInf) (np_sin (np_radians a)) = Inr (PyFloat PosInf)"
    by (simp add: s(1))
  have c: "calculate_impact_effects utcnow d v a lat lon ''Earth'' w =
      assemble_output utcnow a lat lon w PosInf PosInf (PyFloat PosInf) (PyFloat PosInf)
        (div_1000 (mul_int 3 (PyFloat PosInf))) (get_severity_details_float PosInf)
        (fle (Fin 0.1) PosInf \<and> flt PosInf (Fin 1000))
        (if fle (Fin 0.1) PosInf \<and> flt PosInf (Fin 1000)
         then PyNum (mul_int 30 (pow_third PosInf)) else PyInt 0)
        (w \<and> flt (Fin 1) PosInf)"
    unfolding calculate_impact_effects_def Let_def
    by (simp only: f1 f2 f3 [unfolded V_def] f4 [unfolded V_def] f5 [unfolded V_def]
        f6 f7 [unfolded V_def] f8 f9 f10 sum.case refl if_False simp_thms)
  from assemble_output_fields [OF severity_float_keys]
  show ?thesis unfolding c by blast
qed

section \<open>Order of energies and bands\<close>

lemma energy_mono:
  fixes d1 d2 v1 v2 :: real
  assumes "0 \<le> d1" "d1 \<le> d2" "0 \<le> v1" "v1 \<le> v2"
  shows "0.5 * (ASTEROID_DENSITY_KGM3 * ((4/3) * pi * (d1 / 2) ^ 3)) * v1 ^ 2 / JOULES_PER_MEGATON_TNT
       \<le> 0.5 * (ASTEROID_DENSITY_KGM3 * ((4/3) * pi * (d2 / 2) ^ 3)) * v2 ^ 2 / JOULES_PER_MEGATON_TNT"
proof -
  have c: "(d1 / 2) ^ 3 \<le> (d2 / 2) ^ 3" using assms(1,2) by (intro power_mono) simp_all
  have s: "v1 ^ 2 \<le> v2 ^ 2" using assms(3,4) by (intro power_mono) simp_all
  have "(d1 / 2) ^ 3 * v1 ^ 2 \<le> (d2 / 2) ^ 3 * v2 ^ 2"
    using c s assms(1,2) by (intro mult_mono) simp_all
  then have "0.5 * (3500 * ((4/3) * pi * ((d1 / 2) ^ 3 * v1 ^ 2))) / (4.184 * 10 ^ 15)
      \<le> 0.5 * (3500 * ((4/3) * pi * ((d2 / 2) ^ 3 * v2 ^ 2))) / (4.184 * 10 ^ 15)"
    using pi_gt_zero by (intro divide_right_mono mult_left_mono) simp_all
  then show ?thesis
    by (simp add: ASTEROID_DENSITY_KGM3_def JOULES_PER_MEGATON_TNT_def mult.assoc)
qed

lemma severity_band_index:
  "\<exists>b. map_of (get_severity_details e) ''band'' = Some b
     \<and> band_index b = Some (if e < 0.1 then 0 else if e < 10 then 1 else if e < 1000 then 2 else 3)"
  by (simp add: get_severity_details_def band_index_def)

lemma severity_band_mono:
  fixes e1 e2 :: real
  assumes "e1 \<le> e2"
  shows "\<exists>b1 b2 i j. map_of (get_severity_details e1) ''band'' = Some b1
     \<and> map_of (get_severity_details e2) ''band'' = Some b2
     \<and> band_index b1 = Some i \<and> band_index b2 = Some j \<and> i \<le> j"
proof -
  have "(if e1 < 0.1 then 0 else if e1 < 10 then 1 else if e1 < 1000 then 2 else (3::nat))
      \<le> (if e2 < 0.1 then 0 else if e2 < 10 then 1 else if e2 < 1000 then 2 else 3)"
    using assms by simp
  with severity_band_index [of e1] severity_band_index [of e2] show ?thesis by blast
qed

section \<open>Malformed requests\<close>

text \<open>
  C1, as the code has it. \<^verbatim>\<open>calculate_impact_effects\<close> checks nothing about its
  numbers. For Earth, a diameter between \<open>10\<^sup>-\<^sup>5\<^sup>0\<close> and \<open>10\<^sup>5\<^sup>0\<close> and a speed of either sign whose
  magnitude is in that range, no float operation of the energy overflows or underflows,
  and the function returns a report whatever the angle is, also for an angle outside
  \<open>(0, 90]\<close>. With \<^verbatim>\<open>impact_angle_deg = 0\<close> the sine is zero, numpy divides the positive
  crater diameter by it, and the report carries Infinity as \<^verbatim>\<open>long_axis_m_est\<close> and as
  \<^verbatim>\<open>precaution_radius_km_est\<close>.
\<close>

theorem calculate_impact_effects_no_validation:
  fixes diameter_m impact_speed_m_s impact_angle_deg :: real
  assumes "1 / 10 ^ 50 \<le> diameter_m" "diameter_m \<le> 10 ^ 50"
    and "1 / 10 ^ 50 \<le> \<bar>impact_speed_m_s\<bar>" "\<bar>impact_speed_m_s\<bar> \<le> 10 ^ 50"
  shows "(\<exists>r. calculate_impact_effects utcnow diameter_m impact_speed_m_s impact_angle_deg
                lat lon ''Earth'' impact_in_water = Inr r)
    \<and> (\<exists>r. calculate_impact_effects utcnow diameter_m impact_speed_m_s 0
                lat lon ''Earth'' impact_in_water = Inr r
          \<and> subfield ''crater_details'' ''long_axis_m_est'' r = Some (PyNum (PyFloat PosInf))
          \<and> field ''precaution_radius_km_est'' r = Some (PyNum (PyFloat PosInf)))"
proof
  from earth_fields [OF assms, of utcnow impact_angle_deg lat lon impact_in_water]
  show "\<exists>r. calculate_impact_effects utcnow diameter_m impact_speed_m_s impact_angle_deg
                lat lon ''Earth'' impact_in_water = Inr r"
    by blast
  from assms show "\<exists>r. calculate_impact_effects utcnow diameter_m impact_speed_m_s 0
                lat lon ''Earth'' impact_in_water = Inr r
          \<and> subfield ''crater_details'' ''long_axis_m_est'' r = Some (PyNum (PyFloat PosInf))
          \<and> field ''precaution_radius_km_est'' r = Some (PyNum (PyFloat PosInf))"
    by (rule earth_angle_zero)
qed

theorem calculate_impact_effects_no_validation_witness:
  "1 / 10 ^ 50 \<le> (20::real) \<and> (20::real) \<le> 10 ^ 50
    \<and> 1 / 10 ^ 50 \<le> \<bar>- 20000 :: real\<bar> \<and> \<bar>- 20000 :: real\<bar> \<le> 10 ^ 50
    \<and> (\<exists>r. calculate_impact_effects ''2013-02-15T03:20:00'' 20 (- 20000) 120
                (PyNum (PyFloat (Fin 55.15))) (PyNum (PyFloat (Fin 61.4))) ''Earth'' False = Inr r)
    \<and> (\<exists>r. calculate_impact_effects ''2013-02-15T03:20:00'' 20 (- 20000) 0
                (PyNum (PyFloat (Fin 55.15))) (PyNum (PyFloat (Fin 61.4))) ''Earth'' False = Inr r
          \<and> subfield ''crater_details'' ''long_axis_m_est'' r = Some (PyNum (PyFloat PosInf))
          \<and> field ''precaution_radius_km_est'' r = Some (PyNum (PyFloat PosInf)))"
proof -
  have h: "1 / 10 ^ 50 \<le> (20::real)" "(20::real) \<le> 10 ^ 50"
    "1 / 10 ^ 50 \<le> \<bar>- 20000 :: real\<bar>" "\<bar>- 20000 :: real\<bar> \<le> 10 ^ 50"
    by simp_all
  from calculate_impact_effects_no_validation [OF h, where utcnow = "''2013-02-15T03:20:00''"
      and impact_angle_deg = 120 and lat = "PyNum (PyFloat (Fin 55.15))"
      and lon = "PyNum (PyFloat (Fin 61.4))" and impact_in_water = False] h
  show ?thesis by blast
qed

text \<open>
  C1, as the specification states it, fails: for a diameter of 20 m, a speed of
  20000 m/s and an angle of 0 degrees the call does not raise, it returns a report
  whose \<^verbatim>\<open>long_axis_m_est\<close> is Infinity.
\<close>

theorem calculate_impact_effects_angle_zero_counterexample:
  "map_sum id (subfield ''crater_details'' ''long_axis_m_est'')
     (calculate_impact_effects ''2013-02-15T03:20:00'' 20 20000 0
        (PyNum (PyFloat (Fin 55.15))) (PyNum (PyFloat (Fin 61.4))) ''Earth'' False)
   = Inr (Some (PyNum (PyFloat PosInf)))"
proof -
  have h: "1 / 10 ^ 50 \<le> (20::real)" "(20::real) \<le> 10 ^ 50"
    "1 / 10 ^ 50 \<le> \<bar>20000 :: real\<bar>" "\<bar>20000 :: real\<bar> \<le> 10 ^ 50"
    by simp_all
  from earth_angle_zero [OF h, of "''2013-02-15T03:20:00''" "PyNum (PyFloat (Fin 55.15))"
      "PyNum (PyFloat (Fin 61.4))" False]
  obtain r where "calculate_impact_effects ''2013-02-15T03:20:00'' 20 20000 0
      (PyNum (PyFloat (Fin 55.15))) (PyNum (PyFloat (Fin 61.4))) ''Earth'' False = Inr r"
    and "subfield ''crater_details'' ''long_axis_m_est'' r = Some (PyNum (PyFloat PosInf))"
    by blast
  then show ?thesis by simp
qed

section \<open>Bodies other than Earth\<close>

text \<open>
  C2. For a body other than Earth the report has exactly two entries: the key
  \<^verbatim>\<open>impact_body\<close> with the body of the request, and the key \<^verbatim>\<open>notes\<close> with the text
  "No direct effect on Earth expected."
\<close>

theorem calculate_impact_effects_other_body:
  "impact_body \<noteq> ''Earth'' \<Longrightarrow>
     calculate_impact_effects utcnow diameter_m impact_speed_m_s impact_angle_deg lat lon
         impact_body impact_in_water =
       Inr [(''impact_body'', PyStr impact_body),
            (''notes'', PyStr ''No direct effect on Earth expected.'')]"
  by (simp add: calculate_impact_effects_def)

theorem calculate_impact_effects_other_body_witness:
  "''Mars'' \<noteq> ''Earth'' \<and>
   calculate_impact_effects ''2026-01-01T00:00:00'' 20 20000 45 (PyInt 0) (PyInt 0) ''Mars'' False =
     Inr [(''impact_body'', PyStr ''Mars''),
          (''notes'', PyStr ''No direct effect on Earth expected.'')]"
proof -
  have h: "''Mars'' \<noteq> ''Earth''" by simp
  from calculate_impact_effects_other_body [OF h] h show ?thesis by blast
qed

section \<open>Energy\<close>

text \<open>
  C3, as the code has it. For a request for Earth with a diameter and a speed
  between \<open>10\<^sup>-\<^sup>5\<^sup>0\<close> and \<open>10\<^sup>5\<^sup>0\<close> and an angle from \<open>10\<^sup>-\<^sup>5\<^sup>0\<close> up to 90 degrees, the
  report's \<^verbatim>\<open>impact_energy_J\<close> is \<open>0.5 \<times> (3500 \<times> (4/3) \<times> \<pi> \<times> (diameter_m / 2)\<^sup>3) \<times>
  impact_speed_m_s\<^sup>2\<close>, and its \<^verbatim>\<open>impact_energy_Mt\<close> is that \<^verbatim>\<open>impact_energy_J\<close> divided
  by \<open>4.184 \<times> 10\<^sup>1\<^sup>5\<close>.
\<close>

theorem impact_energy_formula:
  fixes diameter_m impact_speed_m_s impact_angle_deg :: real
  assumes "1 / 10 ^ 50 \<le> diameter_m" "diameter_m \<le> 10 ^ 50"
    and "1 / 10 ^ 50 \<le> impact_speed_m_s" "impact_speed_m_s \<le> 10 ^ 50"
    and "1 / 10 ^ 50 \<le> impact_angle_deg" "impact_angle_deg \<le> 90"
  shows "\<exists>r J. calculate_impact_effects utcnow diameter_m impact_speed_m_s impact_angle_deg
                 lat lon ''Earth'' impact_in_water = Inr r
     \<and> field ''impact_energy_J'' r = Some (PyNum (PyFloat (Fin J)))
     \<and> J = 0.5 * (3500 * (4/3) * pi * (diameter_m / 2) ^ 3) * impact_speed_m_s ^ 2
     \<and> field ''impact_energy_Mt'' r = Some (PyNum (PyFloat (Fin (J / (4.184 * 10 ^ 15)))))"
proof -
  have v: "1 / 10 ^ 50 \<le> \<bar>impact_speed_m_s\<bar>" "\<bar>impact_speed_m_s\<bar> \<le> 10 ^ 50"
    using assms(3,4) by simp_all
  have e: "0.5 * (ASTEROID_DENSITY_KGM3 * ((4/3) * pi * (diameter_m / 2) ^ 3)) * impact_speed_m_s ^ 2
      = 0.5 * (3500 * (4/3) * pi * (diameter_m / 2) ^ 3) * impact_speed_m_s ^ 2"
    by (simp add: ASTEROID_DENSITY_KGM3_def)
  from earth_fields_valid [OF assms(1,2) v assms(5,6), of utcnow lat lon impact_in_water]
  show ?thesis
    unfolding e JOULES_PER_MEGATON_TNT_def by blast
qed

theorem impact_energy_formula_witness:
  "1 / 10 ^ 50 \<le> (20::real) \<and> (20::real) \<le> 10 ^ 50
   \<and> 1 / 10 ^ 50 \<le> (20000::real) \<and> (20000::real) \<le> 10 ^ 50
   \<and> 1 / 10 ^ 50 \<le> (45::real) \<and> (45::real) \<le> 90
   \<and> (\<exists>r J. calculate_impact_effects ''2013-02-15T03:20:00'' 20 20000 45
                 (PyNum (PyFloat (Fin 55.15))) (PyNum (PyFloat (Fin 61.4))) ''Earth'' False = Inr r
     \<and> field ''impact_energy_J'' r = Some (PyNum (PyFloat (Fin J)))
     \<and> J = 0.5 * (3500 * (4/3) * pi * (20 / 2) ^ 3) * 20000 ^ 2
     \<and> field ''impact_energy_Mt'' r = Some (PyNum (PyFloat (Fin (J / (4.184 * 10 ^ 15))))))"
proof -
  have h: "1 / 10 ^ 50 \<le> (20::real)" "(20::real) \<le> 10 ^ 50"
    "1 / 10 ^ 50 \<le> (20000::real)" "(20000::real) \<le> 10 ^ 50"
    "1 / 10 ^ 50 \<le> (45::real)" "(45::real) \<le> 90"
    by simp_all
  from impact_energy_formula [OF h, where utcnow = "''2013-02-15T03:20:00''"
      and lat = "PyNum (PyFloat (Fin 55.15))" and lon = "PyNum (PyFloat (Fin 61.4))"
      and impact_in_water = False] h
  show ?thesis by blast
qed

text \<open>
  C3, as the specification states it, fails: a diameter of \<open>10\<^sup>1\<^sup>1\<^sup>0\<close> m is positive, and
  the call raises \<^verbatim>\<open>OverflowError\<close> at \<^verbatim>\<open>radius_m ** 3\<close> instead of returning a report.
\<close>

theorem impact_energy_overflow_counterexample:
  "calculate_impact_effects ''2013-02-15T03:20:00'' (10 ^ 110) 20000 45
     (PyNum (PyFloat (Fin 55.15))) (PyNum (PyFloat (Fin 61.4))) ''Earth'' False
   = Inl OverflowError"
  by (rule overflow_diameter) (simp_all add: DBL_OVERFLOW_def)

section \<open>Severity classification\<close>

text \<open>
  C4. The severity classification is defined on every energy and splits the line at
  0.1, 10 and 1000: below 0.1 it is the green Local Event, from 0.1 up to 10 the yellow
  City Level Event, from 10 up to 1000 the red Regional Threat, from 1000 on the black
  Global Event. The boundary values belong to the higher band, and each band comes
  with its literal list of actions.
\<close>

theorem get_severity_details_bands:
  "(energy_mt < 0.1 \<longrightarrow> get_severity_details energy_mt =
       [(''band'', PyStr ''Local Event''), (''color'', PyStr ''green''),
        (''actions'', PyList [PyStr ''Monitor official news.'',
                              PyStr ''No immediate public action required.''])])
   \<and> (0.1 \<le> energy_mt \<and> energy_mt < 10 \<longrightarrow> get_severity_details energy_mt =
       [(''band'', PyStr ''City Level Event''), (''color'', PyStr ''yellow''),
        (''actions'', PyList [PyStr ''Shelter away from windows.'',
                              PyStr ''Expect shockwave.'',
                              PyStr ''Follow local authority instructions.''])])
   \<and> (10 \<le> energy_mt \<and> energy_mt < 1000 \<longrightarrow> get_severity_details energy_mt =
       [(''band'', PyStr ''Regional Threat''), (''color'', PyStr ''red''),
        (''actions'', PyList [PyStr ''Evacuate within precaution radius immediately.'',
                              PyStr ''Seek high ground if in coastal area.''])])
   \<and> (1000 \<le> energy_mt \<longrightarrow> get_severity_details energy_mt =
       [(''band'', PyStr ''Global Event''), (''color'', PyStr ''black''),
        (''actions'', PyList [PyStr ''This is a globally significant event.'',
                              PyStr ''Follow national emergency broadcast instructions.''])])"
  by (simp add: get_severity_details_def)

theorem get_severity_details_bands_witness:
  "get_severity_details 0 =
       [(''band'', PyStr ''Local Event''), (''color'', PyStr ''green''),
        (''actions'', PyList [PyStr ''Monitor official news.'',
                              PyStr ''No immediate public action required.''])]
   \<and> get_severity_details 0.1 =
       [(''band'', PyStr ''City Level Event''), (''color'', PyStr ''yellow''),
        (''actions'', PyList [PyStr ''Shelter away from windows.'',
                              PyStr ''Expect shockwave.'',
                              PyStr ''Follow local authority instructions.''])]
   \<and> get_severity_details 10 =
       [(''band'', PyStr ''Regional Threat''), (''color'', PyStr ''red''),
        (''actions'', PyList [PyStr ''Evacuate within precaution radius immediately.'',
                              PyStr ''Seek high ground if in coastal area.''])]
   \<and> get_severity_details 1000 =
       [(''band'', PyStr ''Global Event''), (''color'', PyStr ''black''),
        (''actions'', PyList [PyStr ''This is a globally significant event.'',
                              PyStr ''Follow national emergency broadcast instructions.''])]"
  using get_severity_details_bands [of 0] get_severity_details_bands [of "0.1"]
    get_severity_details_bands [of 10] get_severity_details_bands [of 1000]
  by simp

section \<open>Crater geometry\<close>

text \<open>
  C5, as the code has it. For a request for Earth with a diameter and a speed
  between \<open>10\<^sup>-\<^sup>5\<^sup>0\<close> and \<open>10\<^sup>5\<^sup>0\<close> and an angle from \<open>10\<^sup>-\<^sup>5\<^sup>0\<close> up to 90 degrees, with
  \<open>Mt\<close> the energy in megatons that the diameter and the speed give: the short axis of
  the crater is \<open>90 \<times> Mt\<^bsup>1/3\<^esup>\<close>, the long axis is the short axis divided by the sine of
  the angle in radians, the precaution radius is \<open>3 \<times> long axis / 1000\<close>, and the shape
  is "oval" for an angle below 80 degrees and "circular" otherwise.
\<close>

theorem crater_geometry:
  fixes diameter_m impact_speed_m_s impact_angle_deg :: real
  assumes "1 / 10 ^ 50 \<le> diameter_m" "diameter_m \<le> 10 ^ 50"
    and "1 / 10 ^ 50 \<le> impact_speed_m_s" "impact_speed_m_s \<le> 10 ^ 50"
    and "1 / 10 ^ 50 \<le> impact_angle_deg" "impact_angle_deg \<le> 90"
  shows "\<exists>r Mt short long. calculate_impact_effects utcnow diameter_m impact_speed_m_s
                 impact_angle_deg lat lon ''Earth'' impact_in_water = Inr r
     \<and> field ''impact_energy_Mt'' r = Some (PyNum (PyFloat (Fin Mt)))
     \<and> Mt = 0.5 * (3500 * (4/3) * pi * (diameter_m / 2) ^ 3) * impact_speed_m_s ^ 2 / (4.184 * 10 ^ 15)
     \<and> subfield ''crater_details'' ''short_axis_m_est'' r = Some (PyNum (PyFloat (Fin short)))
     \<and> short = 90 * Mt powr (1/3)
     \<and> subfield ''crater_details'' ''long_axis_m_est'' r = Some (PyNum (PyFloat (Fin long)))
     \<and> long = short / sin (impact_angle_deg * pi / 180)
     \<and> field ''precaution_radius_km_est'' r = Some (PyNum (PyFloat (Fin (3 * long / 1000))))
     \<and> subfield ''crater_details'' ''shape'' r =
         Some (PyStr (if impact_angle_deg < 80 then ''oval'' else ''circular''))"
proof -
  have v: "1 / 10 ^ 50 \<le> \<bar>impact_speed_m_s\<bar>" "\<bar>impact_speed_m_s\<bar> \<le> 10 ^ 50"
    using assms(3,4) by simp_all
  have e: "0.5 * (ASTEROID_DENSITY_KGM3 * ((4/3) * pi * (diameter_m / 2) ^ 3)) * impact_speed_m_s ^ 2
      / JOULES_PER_MEGATON_TNT
      = 0.5 * (3500 * (4/3) * pi * (diameter_m / 2) ^ 3) * impact_speed_m_s ^ 2 / (4.184 * 10 ^ 15)"
    by (simp add: ASTEROID_DENSITY_KGM3_def JOULES_PER_MEGATON_TNT_def)
  from earth_fields_valid [OF assms(1,2) v assms(5,6), of utcnow lat lon impact_in_water]
  show ?thesis
    unfolding e by blast
qed

theorem crater_geometry_witness:
  "1 / 10 ^ 50 \<le> (20::real) \<and> (20::real) \<le> 10 ^ 50
   \<and> 1 / 10 ^ 50 \<le> (20000::real) \<and> (20000::real) \<le> 10 ^ 50
   \<and> 1 / 10 ^ 50 \<le> (45::real) \<and> (45::real) \<le> 90
   \<and> (\<exists>r Mt short long. calculate_impact_effects ''2013-02-15T03:20:00'' 20 20000
                 45 (PyNum (PyFloat (Fin 55.15))) (PyNum (PyFloat (Fin 61.4))) ''Earth'' False = Inr r
     \<and> field ''impact_energy_Mt'' r = Some (PyNum (PyFloat (Fin Mt)))
     \<and> Mt = 0.5 * (3500 * (4/3) * pi * (20 / 2) ^ 3) * 20000 ^ 2 / (4.184 * 10 ^ 15)
     \<and> subfield ''crater_details'' ''short_axis_m_est'' r = Some (PyNum (PyFloat (Fin short)))
     \<and> short = 90 * Mt powr (1/3)
     \<and> subfield ''crater_details'' ''long_axis_m_est'' r = Some (PyNum (PyFloat (Fin long)))
     \<and> long = short / sin ((45::real) * pi / 180)
     \<and> field ''precaution_radius_km_est'' r = Some (PyNum (PyFloat (Fin (3 * long / 1000))))
     \<and> subfield ''crater_details'' ''shape'' r =
         Some (PyStr (if (45::real) < 80 then ''oval'' else ''circular'')))"
proof -
  have h: "1 / 10 ^ 50 \<le> (20::real)" "(20::real) \<le> 10 ^ 50"
    "1 / 10 ^ 50 \<le> (20000::real)" "(20000::real) \<le> 10 ^ 50"
    "1 / 10 ^ 50 \<le> (45::real)" "(45::real) \<le> 90"
    by simp_all
  from crater_geometry [OF h, where utcnow = "''2013-02-15T03:20:00''"
      and lat = "PyNum (PyFloat (Fin 55.15))" and lon = "PyNum (PyFloat (Fin 61.4))"
      and impact_in_water = False] h
  show ?thesis by blast
qed

text \<open>
  C5, as the specification states it, fails: a speed of \<open>10\<^sup>2\<^sup>0\<^sup>0\<close> m/s is positive, and
  the call raises \<^verbatim>\<open>OverflowError\<close> at \<^verbatim>\<open>impact_speed_m_s ** 2\<close>; there is no crater in
  a report.
\<close>

theorem crater_geometry_overflow_counterexample:
  "calculate_impact_effects ''2013-02-15T03:20:00'' 20 (10 ^ 200) 45
     (PyNum (PyFloat (Fin 55.15))) (PyNum (PyFloat (Fin 61.4))) ''Earth'' False
   = Inl OverflowError"
  by (rule overflow_speed) (simp_all add: DBL_OVERFLOW_def)

text \<open>
  C6, as the code has it. For a request for Earth with a diameter and a speed
  between \<open>10\<^sup>-\<^sup>5\<^sup>0\<close> and \<open>10\<^sup>5\<^sup>0\<close> and an angle from \<open>10\<^sup>-\<^sup>5\<^sup>0\<close> up to 90 degrees, the
  long axis of the crater is at least the short axis, which is \<open>90 \<times> Mt\<^bsup>1/3\<^esup>\<close> for the
  energy of the request, and at 90 degrees the two are equal.
\<close>

theorem crater_long_axis_ge_short:
  fixes diameter_m impact_speed_m_s impact_angle_deg :: real
  assumes "1 / 10 ^ 50 \<le> diameter_m" "diameter_m \<le> 10 ^ 50"
    and "1 / 10 ^ 50 \<le> impact_speed_m_s" "impact_speed_m_s \<le> 10 ^ 50"
    and "1 / 10 ^ 50 \<le> impact_angle_deg" "impact_angle_deg \<le> 90"
  shows "\<exists>r short long. calculate_impact_effects utcnow diameter_m impact_speed_m_s
                 impact_angle_deg lat lon ''Earth'' impact_in_water = Inr r
     \<and> subfield ''crater_details'' ''short_axis_m_est'' r = Some (PyNum (PyFloat (Fin short)))
     \<and> short = 90 * (0.5 * (3500 * (4/3) * pi * (diameter_m / 2) ^ 3) * impact_speed_m_s ^ 2
                      / (4.184 * 10 ^ 15)) powr (1/3)
     \<and> subfield ''crater_details'' ''long_axis_m_est'' r = Some (PyNum (PyFloat (Fin long)))
     \<and> short \<le> long
     \<and> (impact_angle_deg = 90 \<longrightarrow> long = short)"
proof -
  define Mt where "Mt = 0.5 * (ASTEROID_DENSITY_KGM3 * ((4/3) * pi * (diameter_m / 2) ^ 3))
      * impact_speed_m_s ^ 2 / JOULES_PER_MEGATON_TNT"
  define s where "s = sin (impact_angle_deg * pi / 180)"
  have v: "1 / 10 ^ 50 \<le> \<bar>impact_speed_m_s\<bar>" "\<bar>impact_speed_m_s\<bar> \<le> 10 ^ 50"
    using assms(3,4) by simp_all
  have e: "Mt = 0.5 * (3500 * (4/3) * pi * (diameter_m / 2) ^ 3) * impact_speed_m_s ^ 2
      / (4.184 * 10 ^ 15)"
    by (simp add: Mt_def ASTEROID_DENSITY_KGM3_def JOULES_PER_MEGATON_TNT_def)
  note a = angle_ranges(2,3,4) [OF assms(5,6), folded s_def]
  have s_pos: "0 < s" using a(1) by (rule less_le_trans [rotated]) simp
  note r = energy_ranges(15,16) [OF assms(1,2) v, folded Mt_def]
  have base: "0 < 90 * Mt powr (1/3)"
    using crater_floats(3) [OF r] by (rule less_le_trans [rotated]) simp
  from earth_fields_valid [OF assms(1,2) v assms(5,6), of utcnow lat lon impact_in_water]
  obtain r where r: "calculate_impact_effects utcnow diameter_m impact_speed_m_s
                 impact_angle_deg lat lon ''Earth'' impact_in_water = Inr r"
    and sh: "subfield ''crater_details'' ''short_axis_m_est'' r =
        Some (PyNum (PyFloat (Fin (90 * Mt powr (1/3)))))"
    and lo: "subfield ''crater_details'' ''long_axis_m_est'' r =
        Some (PyNum (PyFloat (Fin (90 * Mt powr (1/3) / s))))"
    unfolding Mt_def [symmetric] s_def [symmetric] by blast
  have le: "90 * Mt powr (1/3) \<le> 90 * Mt powr (1/3) / s"
    using base s_pos a(2) by (rule div_ge_self)
  have eq: "impact_angle_deg = 90 \<longrightarrow> 90 * Mt powr (1/3) / s = 90 * Mt powr (1/3)"
  proof
    assume "impact_angle_deg = 90"
    then have "s = 1" using a(3) by blast
    then show "90 * Mt powr (1/3) / s = 90 * Mt powr (1/3)" by simp
  qed
  from r sh lo le eq show ?thesis
    unfolding e by blast
qed

theorem crater_long_axis_ge_short_witness:
  "1 / 10 ^ 50 \<le> (20::real) \<and> (20::real) \<le> 10 ^ 50
   \<and> 1 / 10 ^ 50 \<le> (20000::real) \<and> (20000::real) \<le> 10 ^ 50
   \<and> 1 / 10 ^ 50 \<le> (90::real) \<and> (90::real) \<le> 90
   \<and> (\<exists>r short long. calculate_impact_effects ''2013-02-15T03:20:00'' 20 20000 90
                 (PyNum (PyFloat (Fin 55.15))) (PyNum (PyFloat (Fin 61.4))) ''Earth'' False = Inr r
     \<and> subfield ''crater_details'' ''short_axis_m_est'' r = Some (PyNum (PyFloat (Fin short)))
     \<and> short = 90 * (0.5 * (3500 * (4/3) * pi * (20 / 2) ^ 3) * 20000 ^ 2
                      / (4.184 * 10 ^ 15)) powr (1/3)
     \<and> subfield ''crater_details'' ''long_axis_m_est'' r = Some (PyNum (PyFloat (Fin long)))
     \<and> short \<le> long
     \<and> long = short)"
proof -
  have h: "1 / 10 ^ 50 \<le> (20::real)" "(20::real) \<le> 10 ^ 50"
    "1 / 10 ^ 50 \<le> (20000::real)" "(20000::real) \<le> 10 ^ 50"
    "1 / 10 ^ 50 \<le> (90::real)" "(90::real) \<le> 90"
    by simp_all
  from crater_long_axis_ge_short [OF h, where utcnow = "''2013-02-15T03:20:00''"
      and lat = "PyNum (PyFloat (Fin 55.15))" and lon = "PyNum (PyFloat (Fin 61.4))"
      and impact_in_water = False] h
  show ?thesis by blast
qed

text \<open>
  C6, as the specification states it, fails: the axes can be equal at an angle other
  than 90 degrees. For a diameter of \<open>10\<^sup>1\<^sup>0\<^sup>0\<close> m, a speed of \<open>10\<^sup>5\<close> m/s and an angle of
  45 degrees the kinetic energy overflows to \<^verbatim>\<open>inf\<close>, and both axes of the report are
  Infinity.
\<close>

theorem crater_axes_equal_counterexample:
  "map_sum id (subfield ''crater_details'' ''long_axis_m_est'')
     (calculate_impact_effects ''2013-02-15T03:20:00'' (10 ^ 100) (10 ^ 5) 45
        (PyNum (PyFloat (Fin 55.15))) (PyNum (PyFloat (Fin 61.4))) ''Earth'' False)
     = Inr (Some (PyNum (PyFloat PosInf)))
   \<and> map_sum id (subfield ''crater_details'' ''short_axis_m_est'')
     (calculate_impact_effects ''2013-02-15T03:20:00'' (10 ^ 100) (10 ^ 5) 45
        (PyNum (PyFloat (Fin 55.15))) (PyNum (PyFloat (Fin 61.4))) ''Earth'' False)
     = Inr (Some (PyNum (PyFloat PosInf)))"
proof -
  have "\<exists>r. calculate_impact_effects ''2013-02-15T03:20:00'' (10 ^ 100) (10 ^ 5) 45
        (PyNum (PyFloat (Fin 55.15))) (PyNum (PyFloat (Fin 61.4))) ''Earth'' False = Inr r
    \<and> subfield ''crater_details'' ''long_axis_m_est'' r = Some (PyNum (PyFloat PosInf))
    \<and> subfield ''crater_details'' ''short_axis_m_est'' r = Some (PyNum (PyFloat PosInf))"
    by (rule earth_energy_inf) (simp_all add: DBL_OVERFLOW_def)
  then obtain r where "calculate_impact_effects ''2013-02-15T03:20:00'' (10 ^ 100) (10 ^ 5) 45
        (PyNum (PyFloat (Fin 55.15))) (PyNum (PyFloat (Fin 61.4))) ''Earth'' False = Inr r"
    and "subfield ''crater_details'' ''long_axis_m_est'' r = Some (PyNum (PyFloat PosInf))"
    and "subfield ''crater_details'' ''short_axis_m_est'' r = Some (PyNum (PyFloat PosInf))"
    by blast
  then show ?thesis by simp
qed

section \<open>Shockwave and tsunami\<close>







section \<open>Determinism\<close>

text \<open>
  C9. Two calls with the same request and two readings of the clock end the same
  way, and their reports agree on every entry other than \<^verbatim>\<open>timestamp_utc\<close>.
\<close>

theorem deterministic_up_to_clock:
  "map_sum id (filter (\<lambda>kv. fst kv \<noteq> ''timestamp_utc''))
     (calculate_impact_effects utcnow diameter_m impact_speed_m_s impact_angle_deg lat lon
        impact_body impact_in_water) =
   map_sum id (filter (\<lambda>kv. fst kv \<noteq> ''timestamp_utc''))
     (calculate_impact_effects utcnow' diameter_m impact_speed_m_s impact_angle_deg lat lon
        impact_body impact_in_water)"
proof (cases "impact_body = ''Earth''")
  case False
  then show ?thesis by (simp add: calculate_impact_effects_def)
next
  case True
  show ?thesis
    unfolding calculate_impact_effects_def Let_def True
    by (simp split: sum.split)
      (intro allI impI conjI assemble_output_clock severity_float_keys)
qed

section \<open>Monotonicity\<close>

text \<open>
  C10, as the code has it. For two requests for Earth with diameters and speeds
  between \<open>10\<^sup>-\<^sup>5\<^sup>0\<close> and \<open>10\<^sup>5\<^sup>0\<close>, the second with a diameter and a speed that are not smaller
  than those of the first: the \<^verbatim>\<open>impact_energy_Mt\<close> of the second is not smaller than
  that of the first, and its severity band is not below the band of the first in the
  order Local, City Level, Regional, Global.
\<close>

theorem energy_and_band_monotone:
  fixes d1 d2 v1 v2 :: real
  assumes "1 / 10 ^ 50 \<le> d1" "d1 \<le> d2" "d2 \<le> 10 ^ 50"
    and "1 / 10 ^ 50 \<le> v1" "v1 \<le> v2" "v2 \<le> 10 ^ 50"
  shows "\<exists>r1 r2 e1 e2 b1 b2 i j.
       calculate_impact_effects u1 d1 v1 a1 lat1 lon1 ''Earth'' w1 = Inr r1
     \<and> calculate_impact_effects u2 d2 v2 a2 lat2 lon2 ''Earth'' w2 = Inr r2
     \<and> field ''impact_energy_Mt'' r1 = Some (PyNum (PyFloat (Fin e1)))
     \<and> field ''impact_energy_Mt'' r2 = Some (PyNum (PyFloat (Fin e2)))
     \<and> e1 = 0.5 * (3500 * (4/3) * pi * (d1 / 2) ^ 3) * v1 ^ 2 / (4.184 * 10 ^ 15)
     \<and> e2 = 0.5 * (3500 * (4/3) * pi * (d2 / 2) ^ 3) * v2 ^ 2 / (4.184 * 10 ^ 15)
     \<and> e1 \<le> e2
     \<and> field ''severity_band'' r1 = Some b1 \<and> field ''severity_band'' r2 = Some b2
     \<and> band_index b1 = Some i \<and> band_index b2 = Some j \<and> i \<le> j"
proof -
  define E where "E d v = 0.5 * (ASTEROID_DENSITY_KGM3 * ((4/3) * pi * (d / 2) ^ 3)) * v ^ 2
      / JOULES_PER_MEGATON_TNT" for d v :: real
  have e: "E d v = 0.5 * (3500 * (4/3) * pi * (d / 2) ^ 3) * v ^ 2 / (4.184 * 10 ^ 15)" for d v
    by (simp add: E_def ASTEROID_DENSITY_KGM3_def JOULES_PER_MEGATON_TNT_def)
  have dl: "1 / 10 ^ 50 \<le> d2" and dh: "d1 \<le> 10 ^ 50"
    and vl: "1 / 10 ^ 50 \<le> v2" and vh: "v1 \<le> 10 ^ 50"
    using assms by linarith+
  have p1: "0 \<le> d1" using assms(1) by (rule order_trans [rotated]) simp
  have p2: "0 \<le> v1" using assms(4) by (rule order_trans [rotated]) simp
  have le: "E d1 v1 \<le> E d2 v2"
    unfolding E_def using p1 assms(2) p2 assms(5) by (rule energy_mono)
  from earth_energy_band [OF assms(1) dh assms(4) vh, of u1 a1 lat1 lon1 w1, folded E_def]
  obtain r1 where r1: "calculate_impact_effects u1 d1 v1 a1 lat1 lon1 ''Earth'' w1 = Inr r1"
    and m1: "field ''impact_energy_Mt'' r1 = Some (PyNum (PyFloat (Fin (E d1 v1))))"
    and s1: "field ''severity_band'' r1 = map_of (get_severity_details (E d1 v1)) ''band''"
    by blast
  from earth_energy_band [OF dl assms(3) vl assms(6), of u2 a2 lat2 lon2 w2, folded E_def]
  obtain r2 where r2: "calculate_impact_effects u2 d2 v2 a2 lat2 lon2 ''Earth'' w2 = Inr r2"
    and m2: "field ''impact_energy_Mt'' r2 = Some (PyNum (PyFloat (Fin (E d2 v2))))"
    and s2: "field ''severity_band'' r2 = map_of (get_severity_details (E d2 v2)) ''band''"
    by blast
  from severity_band_mono [OF le]
  obtain b1 b2 i j where b: "map_of (get_severity_details (E d1 v1)) ''band'' = Some b1"
    "map_of (get_severity_details (E d2 v2)) ''band'' = Some b2"
    "band_index b1 = Some i" "band_index b2 = Some j" "i \<le> j"
    by blast
  note m1' = m1 [unfolded e] and m2' = m2 [unfolded e] and le' = le [unfolded e]
    and s1' = s1 [unfolded b(1)] and s2' = s2 [unfolded b(2)]
  from r1 r2 m1' m2' le' s1' s2' b(3,4,5) show ?thesis by blast
qed

theorem energy_and_band_monotone_witness:
  "1 / 10 ^ 50 \<le> (20::real) \<and> (20::real) \<le> 40 \<and> (40::real) \<le> 10 ^ 50
   \<and> 1 / 10 ^ 50 \<le> (20000::real) \<and> (20000::real) \<le> 30000 \<and> (30000::real) \<le> 10 ^ 50
   \<and> (\<exists>r1 r2 e1 e2 b1 b2 i j.
       calculate_impact_effects ''2013-02-15T03:20:00'' 20 20000 45
         (PyNum (PyFloat (Fin 55.15))) (PyNum (PyFloat (Fin 61.4))) ''Earth'' False = Inr r1
     \<and> calculate_impact_effects ''2013-02-15T03:20:00'' 40 30000 45
         (PyNum (PyFloat (Fin 55.15))) (PyNum (PyFloat (Fin 61.4))) ''Earth'' False = Inr r2
     \<and> field ''impact_energy_Mt'' r1 = Some (PyNum (PyFloat (Fin e1)))
     \<and> field ''impact_energy_Mt'' r2 = Some (PyNum (PyFloat (Fin e2)))
     \<and> e1 = 0.5 * (3500 * (4/3) * pi * (20 / 2) ^ 3) * 20000 ^ 2 / (4.184 * 10 ^ 15)
     \<and> e2 = 0.5 * (3500 * (4/3) * pi * (40 / 2) ^ 3) * 30000 ^ 2 / (4.184 * 10 ^ 15)
     \<and> e1 \<le> e2
     \<and> field ''severity_band'' r1 = Some b1 \<and> field ''severity_band'' r2 = Some b2
     \<and> band_index b1 = Some i \<and> band_index b2 = Some j \<and> i \<le> j)"
proof -
  have h: "1 / 10 ^ 50 \<le> (20::real)" "(20::real) \<le> 40" "(40::real) \<le> 10 ^ 50"
    "1 / 10 ^ 50 \<le> (20000::real)" "(20000::real) \<le> 30000" "(30000::real) \<le> 10 ^ 50"
    by simp_all
  from energy_and_band_monotone [OF h, where ?u1.0 = "''2013-02-15T03:20:00''"
      and ?u2.0 = "''2013-02-15T03:20:00''" and ?a1.0 = 45 and ?a2.0 = 45
      and ?lat1.0 = "PyNum (PyFloat (Fin 55.15))" and ?lat2.0 = "PyNum (PyFloat (Fin 55.15))"
      and ?lon1.0 = "PyNum (PyFloat (Fin 61.4))" and ?lon2.0 = "PyNum (PyFloat (Fin 61.4))"
      and ?w1.0 = False and ?w2.0 = False] h
  show ?thesis by blast
qed

text \<open>
  C10, as the specification states it, fails: the energy is not strictly increasing.
  The diameters \<open>10\<^sup>-\<^sup>1\<^sup>1\<^sup>0\<close> m and \<open>10\<^sup>-\<^sup>1\<^sup>0\<^sup>9\<close> m are positive and differ, the cube of the
  radius underflows to zero for both, and both reports have \<^verbatim>\<open>impact_energy_Mt\<close> 0.
\<close>

theorem energy_not_strict_counterexample:
  "map_sum id (field ''impact_energy_Mt'')
     (calculate_impact_effects ''2013-02-15T03:20:00'' (1 / 10 ^ 110) 20000 45
        (PyNum (PyFloat (Fin 55.15))) (PyNum (PyFloat (Fin 61.4))) ''Earth'' False)
     = Inr (Some (PyNum (PyFloat (Fin 0))))
   \<and> map_sum id (field ''impact_energy_Mt'')
     (calculate_impact_effects ''2013-02-15T03:20:00'' (1 / 10 ^ 109) 20000 45
        (PyNum (PyFloat (Fin 55.15))) (PyNum (PyFloat (Fin 61.4))) ''Earth'' False)
     = Inr (Some (PyNum (PyFloat (Fin 0))))"
proof -
  have u1: "((1 / 10 ^ 110 / 2) ^ 3 :: real) \<le> DBL_UNDERFLOW"
    by (rule tiny_cube) simp_all
  have u2: "((1 / 10 ^ 109 / 2) ^ 3 :: real) \<le> DBL_UNDERFLOW"
    by (rule tiny_cube) simp_all
  have "\<exists>r. calculate_impact_effects ''2013-02-15T03:20:00'' (1 / 10 ^ 110) 20000 45
        (PyNum (PyFloat (Fin 55.15))) (PyNum (PyFloat (Fin 61.4))) ''Earth'' False = Inr r
    \<and> field ''impact_energy_Mt'' r = Some (PyNum (PyFloat (Fin 0)))"
    by (rule earth_underflow [OF _ _ u1]) simp_all
  moreover have "\<exists>r. calculate_impact_effects ''2013-02-15T03:20:00'' (1 / 10 ^ 109) 20000 45
        (PyNum (PyFloat (Fin 55.15))) (PyNum (PyFloat (Fin 61.4))) ''Earth'' False = Inr r
    \<and> field ''impact_energy_Mt'' r = Some (PyNum (PyFloat (Fin 0)))"
    by (rule earth_underflow [OF _ _ u2]) simp_all
  ultimately obtain r1 r2 where
    "calculate_impact_effects ''2013-02-15T03:20:00'' (1 / 10 ^ 110) 20000 45
        (PyNum (PyFloat (Fin 55.15))) (PyNum (PyFloat (Fin 61.4))) ''Earth'' False = Inr r1"
    "field ''impact_energy_Mt'' r1 = Some (PyNum (PyFloat (Fin 0)))"
    "calculate_impact_effects ''2013-02-15T03:20:00'' (1 / 10 ^ 109) 20000 45
        (PyNum (PyFloat (Fin 55.15))) (PyNum (PyFloat (Fin 61.4))) ''Earth'' False = Inr r2"
    "field ''impact_energy_Mt'' r2 = Some (PyNum (PyFloat (Fin 0)))"
    by blast
  then show ?thesis by simp
qed

end
